theory Spec2Isabelle
  imports Complex_Main "HOL-Library.Char_ord" "HOL-Library.List_Lexorder"
begin

section \<open>Cells, numbers and strings\<close>

text \<open>
  A pandas cell that holds text is a \<open>string option\<close>: \<open>None\<close> is the missing value
  (\<open>NaN\<close>/\<open>None\<close>, what \<open>pd.isna\<close> accepts). A numeric cell read from a spreadsheet is a
  \<open>real option\<close>: a finite float64 is the real number it denotes, and \<open>None\<close> is \<open>NaN\<close>.
  A text is a list of 8-bit characters: the model covers ASCII text, and a non-ASCII
  character of a label of the source is written as its UTF-8 bytes.
\<close>

type_synonym cell = "string option"
type_synonym num = "real option"

text \<open>
  A quotient of two columns may be infinite (division by zero gives \<open>inf\<close>, \<open>-inf\<close> or
  \<open>NaN\<close> in pandas, never an exception), so a derived float is an \<open>fnum option\<close>.
\<close>

datatype fnum = NegInf | Fin real | PosInf

type_synonym xnum = "fnum option"

datatype py_error = KeyError | ValueError | ServiceError

definition is_space :: "char \<Rightarrow> bool" where
  "is_space c = (let n = (of_char c :: nat) in (9 \<le> n \<and> n \<le> 13) \<or> (28 \<le> n \<and> n \<le> 32))"

definition strip :: "string \<Rightarrow> string" where
  "strip s = rev (dropWhile is_space (rev (dropWhile is_space s)))"

definition upper_char :: "char \<Rightarrow> char" where
  "upper_char c =
     (case map_of (zip ''abcdefghijklmnopqrstuvwxyz'' ''ABCDEFGHIJKLMNOPQRSTUVWXYZ'') c of
        None \<Rightarrow> c
      | Some u \<Rightarrow> u)"

definition upper :: "string \<Rightarrow> string" where
  "upper s = map upper_char s"

text \<open>\<open>str(val)\<close> of a cell: the text itself, \<open>'nan'\<close> for the missing value.\<close>

definition str_cell :: "cell \<Rightarrow> string" where
  "str_cell v = (case v of None \<Rightarrow> ''nan'' | Some s \<Rightarrow> s)"

text \<open>
  \<open>is_space\<close>, \<open>strip\<close> and \<open>upper\<close> are Python's \<open>str.isspace\<close>, \<open>str.strip\<close> and
  \<open>str.upper\<close> on ASCII text. Python also strips the non-ASCII white space (U+0085, U+00A0,
  U+1680, U+2000 to U+200A, U+2028, U+2029, U+202F, U+205F, U+3000) and upper-cases non-ASCII
  letters; such text is outside the model, and the theorems on rating texts assume that the
  rating cells hold ASCII text.
\<close>

definition ascii_text :: "string \<Rightarrow> bool" where
  "ascii_text s = list_all (\<lambda>c. (of_char c :: nat) < 128) s"

definition ascii_cell :: "cell \<Rightarrow> bool" where
  "ascii_cell c = (case c of None \<Rightarrow> True | Some s \<Rightarrow> ascii_text s)"

section \<open>The position row\<close>

text \<open>
  One row of the merged table, with the columns the calculator and the analyzer read or
  write. The column \<open>S&P LT Foreign Currency Issuer Credit Rating\<close> may be absent from
  the table (the code tests \<open>in row.index\<close>): its field is \<open>None\<close> then, and \<open>Some c\<close>
  with the cell \<open>c\<close> otherwise. The same holds for the columns \<open>EXPECTED_REPORT_DT\<close>,
  \<open>EXPECTED_REPORT_TIME\<close> and \<open>EARNING\<close>, which the loader creates.
\<close>

text \<open>
  A value read from the Bloomberg service is a float or a string (\<open>getElementAsFloat\<close>,
  then \<open>getElementAsString\<close>); Python's \<open>None\<close> is the missing cell. A formatted string
  is a list of pieces: literal text, and floats whose decimal rendering \<open>str(x)\<close> is left
  symbolic.
\<close>

datatype bbg_value = BFloat real | BString string

type_synonym bbg_cell = "bbg_value option"

datatype piece = Txt string | Flt real

record row =
  isin :: cell
  short_name :: cell
  long_name :: cell
  sector :: cell
  cntry_risk :: cell
  eqty_ticker :: cell
  security_type :: cell
  sp :: cell
  sp_lt_fc :: "cell option"
  rating :: cell
  market_value :: num
  years_to_mat :: num
  delta :: num
  pct_prem :: num
  delta_pct :: num
  premium_pct :: num
  mod_dur_to_worst :: num
  effective_duration :: num
  oad :: num
  interest_sensitivity :: num
  oac :: num
  credit_sensitivity :: num
  implied_spread :: num
  implied_volatility :: num
  industry_sector :: cell
  theme :: cell
  issuer :: cell
  sp_ajusted :: cell
  rating_chiffre :: num
  credit_category :: cell
  sensi_equity :: xnum
  contrib_sensi_equity :: xnum
  sensi_equity_xcv :: xnum
  contrib_sensi_equity_xcv :: xnum
  contrib_modified_duration :: num
  contrib_effective_duration :: num
  contrib_taux_sensi :: num
  contrib_credit_sensi :: num
  contrib_implied_spread :: num
  sensi_bucket :: cell
  vol_bucket :: cell
  maturity_bucket :: cell
  region :: cell
  style :: cell
  expected_report_dt :: "bbg_cell option"
  expected_report_time :: "bbg_cell option"
  earning :: "piece list option"

type_synonym frame = "row list"

section \<open>PortfolioCalculator: the lookup tables\<close>

definition sp_rating_to_number :: "(string \<times> nat) list" where
  "sp_rating_to_number =
     [(''AAA'', 1), (''AA+'', 2), (''AA'', 3), (''AA-'', 4), (''A+'', 5), (''A'', 6), (''A-'', 7),
      (''BBB+'', 8), (''BBB'', 9), (''BBB-'', 10), (''BB+'', 11), (''BB'', 12), (''BB-'', 13),
      (''B+'', 14), (''B'', 15), (''B-'', 16), (''CCC+'', 17), (''CCC'', 18), (''CCC-'', 19),
      (''CC'', 20), (''C'', 21), (''D'', 22)]"

definition ordre_sp :: "string list" where
  "ordre_sp =
     [''AAA'', ''AAA-'', ''AA+'', ''AA'', ''AA-'', ''A+'', ''A'', ''A-'',
      ''BBB+'', ''BBB'', ''BBB-'', ''BB+'', ''BB'', ''BB-'',
      ''B+'', ''B'', ''B-'', ''CCC+'', ''CCC'', ''CCC-'', ''CC'', ''C'', ''D'', ''NR'']"

definition ig_ratings :: "string list" where
  "ig_ratings =
     [''AAA'', ''AAA-'', ''AA+'', ''AA'', ''AA-'', ''A+'', ''A'', ''A-'',
      ''BBB+'', ''BBB'', ''BBB-'']"

definition delta_par_defaut :: "(string \<times> real) list" where
  "delta_par_defaut =
     [(''Common Stocks'', 1), (''Corporate Bonds'', 0), (''Currency Forwards'', 0),
      (''Open-End Funds'', 0), (''Warrants'', 1), (''Cash'', 0)]"



text \<open>\<open>dict.get(key)\<close> and \<open>Series.map(dict)\<close> on a cell: a missing cell is no key.\<close>

definition dict_get :: "(string \<times> 'v) list \<Rightarrow> cell \<Rightarrow> 'v option" where
  "dict_get d k = (case k of None \<Rightarrow> None | Some s \<Rightarrow> map_of d s)"

text \<open>\<open>Series.isin(values)\<close> on a cell.\<close>

definition cell_isin :: "cell \<Rightarrow> string list \<Rightarrow> bool" where
  "cell_isin c vs = (case c of None \<Rightarrow> False | Some s \<Rightarrow> s \<in> set vs)"

section \<open>PortfolioCalculator: manual corrections\<close>



section \<open>PortfolioCalculator: rating resolution\<close>

definition invalid_sentinels :: "string list" where
  "invalid_sentinels = ['''', ''NR'', ''#N/A'', ''NAN'', ''NONE'']"

definition is_valid_rating :: "cell \<Rightarrow> bool" where
  "is_valid_rating val =
     (case val of
        None \<Rightarrow> False
      | Some s \<Rightarrow> upper (strip (str_cell (Some s))) \<notin> set invalid_sentinels)"

definition assign_rating_improved :: "row \<Rightarrow> string" where
  "assign_rating_improved r =
     (if is_valid_rating (sp r) then strip (str_cell (sp r))
      else case (case sp_lt_fc r of
                   None \<Rightarrow> None
                 | Some c \<Rightarrow> if is_valid_rating c then Some (strip (str_cell c)) else None) of
             Some g \<Rightarrow> g
           | None \<Rightarrow> if is_valid_rating (rating r) then strip (str_cell (rating r)) else ''NR'')"

definition credit_category_of :: "row \<Rightarrow> string" where
  "credit_category_of r =
     (if security_type r = Some ''Cash'' then ''Cash''
      else if cell_isin (sp_ajusted r) ig_ratings then ''Investment Grade''
      else if \<not> cell_isin (sp_ajusted r) [''NR'', ''D''] then ''High Yield''
      else ''Not Rated'')"

text \<open>
  The float64 operations on finite values are parameters of the model: multiplication,
  division, subtraction, addition, the summation of \<open>Series.sum()\<close> (whose order of additions
  is numpy's), and \<open>round(2)\<close>. Their results are taken to be finite (no overflow). Nothing
  is assumed of them but what a theorem states.
\<close>

record float_ops =
  fmul :: "real \<Rightarrow> real \<Rightarrow> real"
  fdiv :: "real \<Rightarrow> real \<Rightarrow> real"
  fsub :: "real \<Rightarrow> real \<Rightarrow> real"
  fadd :: "real \<Rightarrow> real \<Rightarrow> real"
  fsum :: "real list \<Rightarrow> real"
  fround2 :: "real \<Rightarrow> real"

text \<open>
  The arithmetic of the reals, with rounding to two decimals half to even. It agrees with
  float64 on a computation all of whose operands and results are float64 numbers.
\<close>

definition round_half_even :: "real \<Rightarrow> int" where
  "round_half_even x =
     (let f = \<lfloor>x\<rfloor>; d = x - of_int f
      in if d < 1 / 2 then f else if 1 / 2 < d then f + 1 else if even f then f else f + 1)"

definition exact_ops :: float_ops where
  "exact_ops =
     \<lparr>fmul = (\<lambda>a b. a * b), fdiv = (\<lambda>a b. a / b), fsub = (\<lambda>a b. a - b),
      fadd = (\<lambda>a b. a + b), fsum = sum_list,
      fround2 = (\<lambda>x. of_int (round_half_even (x * 100)) / 100)\<rparr>"

text \<open>
  An arithmetic is accurate when every operation is within the relative error 1/1000 of the
  exact result, and a sum of at most a million terms within 1/1000 of the sum of the absolute
  values. Float64 arithmetic without overflow and underflow is accurate in this sense,
  whatever the order of the additions of a sum.
\<close>

definition accurate :: "float_ops \<Rightarrow> bool" where
  "accurate ops =
     ((\<forall>a b. \<bar>fmul ops a b - a * b\<bar> \<le> \<bar>a * b\<bar> / 1000)
      \<and> (\<forall>a b. \<bar>fdiv ops a b - a / b\<bar> \<le> \<bar>a / b\<bar> / 1000)
      \<and> (\<forall>a b. \<bar>fsub ops a b - (a - b)\<bar> \<le> \<bar>a - b\<bar> / 1000)
      \<and> (\<forall>xs. length xs \<le> 1000000 \<longrightarrow>
             \<bar>fsum ops xs - sum_list xs\<bar> \<le> sum_list (map abs xs) / 1000))"

text \<open>Arithmetic of numeric columns: a missing operand gives a missing result.\<close>

definition num_mul :: "float_ops \<Rightarrow> num \<Rightarrow> num \<Rightarrow> num" where
  "num_mul ops a b = (case (a, b) of (Some x, Some y) \<Rightarrow> Some (fmul ops x y) | _ \<Rightarrow> None)"

definition num_scale :: "float_ops \<Rightarrow> num \<Rightarrow> real \<Rightarrow> num" where
  "num_scale ops a c = map_option (\<lambda>x. fmul ops x c) a"

definition num_div_const :: "float_ops \<Rightarrow> num \<Rightarrow> real \<Rightarrow> num" where
  "num_div_const ops a c = map_option (\<lambda>x. fdiv ops x c) a"

text \<open>
  \<open>Series.sum()\<close> of a column of finite numbers: pandas puts 0 in the missing cells and sums
  the column.
\<close>

definition nansum :: "float_ops \<Rightarrow> num list \<Rightarrow> real" where
  "nansum ops xs = fsum ops (map (\<lambda>x. case x of None \<Rightarrow> 0 | Some v \<Rightarrow> v) xs)"

text \<open>
  Python's \<open>min(iterable, key=f)\<close>: the first element whose key is minimal;
  \<open>ValueError\<close> on an empty iterable.
\<close>

fun min_by :: "('a \<Rightarrow> real) \<Rightarrow> 'a \<Rightarrow> 'a list \<Rightarrow> 'a" where
  "min_by f best [] = best"
| "min_by f best (x # xs) = min_by f (if f x < f best then x else best) xs"

definition py_min :: "('a \<Rightarrow> real) \<Rightarrow> 'a list \<Rightarrow> py_error + 'a" where
  "py_min f xs = (case xs of [] \<Rightarrow> Inl ValueError | x # ys \<Rightarrow> Inr (min_by f x ys))"

text \<open>The inverted dictionary \<open>{v: k for k, v in sp_rating_to_number.items() if v != 99}\<close>.\<close>

definition number_to_sp_rating :: "(nat \<times> string) list" where
  "number_to_sp_rating = map (\<lambda>(k, v). (v, k)) (filter (\<lambda>(k, v). v \<noteq> 99) sp_rating_to_number)"

definition bond_types :: "string list" where
  "bond_types = [''Corporate Bonds'', ''Convertible Bonds'']"

text \<open>
  The sum \<open>rating_chiffre\<close> of \<open>_calculate_ratings\<close>: over the rows of the bond types,
  \<open>Rating Chiffre * Market Value (%) / 100\<close>, missing products skipped.
\<close>

definition contrib_rating_chiffre :: "float_ops \<Rightarrow> row \<Rightarrow> num" where
  "contrib_rating_chiffre ops r =
     num_div_const ops (num_mul ops (rating_chiffre r) (market_value r)) 100"

definition fund_rating_chiffre :: "float_ops \<Rightarrow> frame \<Rightarrow> real" where
  "fund_rating_chiffre ops df =
     nansum ops (map (contrib_rating_chiffre ops)
       (filter (\<lambda>r. cell_isin (security_type r) bond_types) df))"

definition closest_grade :: "float_ops \<Rightarrow> real \<Rightarrow> py_error + string" where
  "closest_grade ops x =
     (case py_min (\<lambda>n. \<bar>fsub ops (real n) x\<bar>) (map fst number_to_sp_rating) of
        Inl e \<Rightarrow> Inl e
      | Inr closest_number \<Rightarrow>
          (case map_of number_to_sp_rating closest_number of
             None \<Rightarrow> Inl KeyError
           | Some g \<Rightarrow> Inr g))"

definition set_sp_ajusted :: "row \<Rightarrow> row" where
  "set_sp_ajusted r =
     (let r1 = r\<lparr>sp_ajusted := Some (assign_rating_improved r)\<rparr>
      in if security_type r1 = Some ''Cash'' then r1\<lparr>sp_ajusted := Some ''CASH''\<rparr> else r1)"

definition set_rating_columns :: "row \<Rightarrow> row" where
  "set_rating_columns r =
     (let r1 = set_sp_ajusted r;
          r2 = r1\<lparr>rating_chiffre := map_option real (dict_get sp_rating_to_number (sp_ajusted r1))\<rparr>
      in r2\<lparr>credit_category := Some (credit_category_of r2)\<rparr>)"

text \<open>
  \<open>_calculate_ratings\<close> returns the table with the columns \<open>S&P Ajusted\<close>,
  \<open>Rating Chiffre\<close> and \<open>Credit Category\<close> set, and stores the fund's rating in
  \<open>self.rating_final\<close>: the second component here.
\<close>

definition calculate_ratings :: "float_ops \<Rightarrow> frame \<Rightarrow> py_error + (frame \<times> string)" where
  "calculate_ratings ops df =
     (let df' = map set_rating_columns df
      in case closest_grade ops (fund_rating_chiffre ops df') of
           Inl e \<Rightarrow> Inl e
         | Inr g \<Rightarrow> Inr (df', g))"

text \<open>
  The cascade as the specification words it: the first valid value among the primary
  rating, the secondary rating (when the table has the column) and the internal rating,
  else the literal NR.
\<close>

definition spec_cascade_values :: "row \<Rightarrow> cell list" where
  "spec_cascade_values r =
     [sp r] @ (case sp_lt_fc r of None \<Rightarrow> [] | Some c \<Rightarrow> [c]) @ [rating r]"

definition spec_first_valid :: "row \<Rightarrow> cell" where
  "spec_first_valid r = (case filter is_valid_rating (spec_cascade_values r) of [] \<Rightarrow> None | v # _ \<Rightarrow> v)"

text \<open>The rating cells of a row hold ASCII text.\<close>

definition ascii_ratings :: "row \<Rightarrow> bool" where
  "ascii_ratings r =
     (ascii_cell (sp r) \<and> (case sp_lt_fc r of None \<Rightarrow> True | Some c \<Rightarrow> ascii_cell c)
      \<and> ascii_cell (rating r))"

definition valid_grades :: "string list" where
  "valid_grades = map fst sp_rating_to_number"

text \<open>A row with every cell missing, from which examples are built.\<close>

definition empty_row :: row where
  "empty_row =
     \<lparr>isin = None, short_name = None, long_name = None, sector = None, cntry_risk = None,
      eqty_ticker = None, security_type = None, sp = None, sp_lt_fc = None, rating = None,
      market_value = None, years_to_mat = None, delta = None, pct_prem = None,
      delta_pct = None, premium_pct = None, mod_dur_to_worst = None,
      effective_duration = None, oad = None, interest_sensitivity = None, oac = None,
      credit_sensitivity = None, implied_spread = None, implied_volatility = None,
      industry_sector = None, theme = None, issuer = None, sp_ajusted = None,
      rating_chiffre = None, credit_category = None, sensi_equity = None,
      contrib_sensi_equity = None, sensi_equity_xcv = None, contrib_sensi_equity_xcv = None,
      contrib_modified_duration = None, contrib_effective_duration = None,
      contrib_taux_sensi = None, contrib_credit_sensi = None, contrib_implied_spread = None,
      sensi_bucket = None, vol_bucket = None, maturity_bucket = None, region = None,
      style = None, expected_report_dt = None, expected_report_time = None, earning = None\<rparr>"

section \<open>PortfolioCalculator: sensitivities\<close>

text \<open>
  Float division of two columns whose cells are finite or \<open>NaN\<close>: a zero divisor gives
  \<open>inf\<close>, \<open>-inf\<close> or \<open>NaN\<close> (for \<open>0 / 0\<close>). The divisors of the source are sums
  \<open>1 + x / 100\<close>, whose zero is the positive zero.
\<close>

definition float_div :: "float_ops \<Rightarrow> num \<Rightarrow> num \<Rightarrow> xnum" where
  "float_div ops a b =
     (case (a, b) of
        (Some x, Some y) \<Rightarrow>
          if y \<noteq> 0 then Some (Fin (fdiv ops x y))
          else if 0 < x then Some PosInf
          else if x < 0 then Some NegInf
          else None
      | _ \<Rightarrow> None)"

text \<open>Float multiplication: \<open>inf * 0\<close> is \<open>NaN\<close>.\<close>

fun fnum_mul :: "float_ops \<Rightarrow> fnum \<Rightarrow> fnum \<Rightarrow> xnum" where
  "fnum_mul ops (Fin a) (Fin b) = Some (Fin (fmul ops a b))"
| "fnum_mul ops (Fin a) PosInf = (if 0 < a then Some PosInf else if a < 0 then Some NegInf else None)"
| "fnum_mul ops (Fin a) NegInf = (if 0 < a then Some NegInf else if a < 0 then Some PosInf else None)"
| "fnum_mul ops PosInf (Fin b) = (if 0 < b then Some PosInf else if b < 0 then Some NegInf else None)"
| "fnum_mul ops NegInf (Fin b) = (if 0 < b then Some NegInf else if b < 0 then Some PosInf else None)"
| "fnum_mul ops PosInf PosInf = Some PosInf"
| "fnum_mul ops PosInf NegInf = Some NegInf"
| "fnum_mul ops NegInf PosInf = Some NegInf"
| "fnum_mul ops NegInf NegInf = Some PosInf"

text \<open>\<open>Series.fillna(0)\<close> on one cell, and a finite-or-\<open>NaN\<close> cell as a float cell.\<close>

definition fillna0 :: "xnum \<Rightarrow> fnum" where
  "fillna0 x = (case x of None \<Rightarrow> Fin 0 | Some v \<Rightarrow> v)"

definition fin :: "num \<Rightarrow> xnum" where
  "fin x = map_option Fin x"

text \<open>
  The lambda of the two \<open>df.apply\<close> calls that fill a missing delta:
  \<open>delta_par_defaut.get(row["Security Type"], row[col]) if pd.isna(row[col]) else row[col]\<close>.
\<close>

definition default_delta :: "cell \<Rightarrow> num \<Rightarrow> num" where
  "default_delta ty d =
     (case d of
        None \<Rightarrow> (case dict_get delta_par_defaut ty of None \<Rightarrow> d | Some v \<Rightarrow> Some v)
      | Some x \<Rightarrow> Some x)"

text \<open>\<open>1 + (col / 100)\<close>, and \<open>fillna(0) * fillna(0)\<close> of a sensitivity and a weight.\<close>

definition one_plus_pct :: "float_ops \<Rightarrow> num \<Rightarrow> num" where
  "one_plus_pct ops p = map_option (\<lambda>x. fadd ops 1 (fdiv ops x 100)) p"

definition contrib_sensi :: "float_ops \<Rightarrow> xnum \<Rightarrow> num \<Rightarrow> xnum" where
  "contrib_sensi ops s mv = fnum_mul ops (fillna0 s) (fillna0 (fin mv))"

text \<open>\<open>col * df["Market Value (%)"] / 100\<close>.\<close>

definition contrib_pct :: "float_ops \<Rightarrow> num \<Rightarrow> num \<Rightarrow> num" where
  "contrib_pct ops a mv = num_div_const ops (num_mul ops a mv) 100"

text \<open>
  \<open>_calculate_sensitivities\<close>: every statement assigns one column from columns of the same
  row, so the statements are applied row by row, in the order of the source.
\<close>

definition calculate_sensitivities_row :: "float_ops \<Rightarrow> row \<Rightarrow> row" where
  "calculate_sensitivities_row ops r =
     (let r1 = r\<lparr>delta := default_delta (security_type r) (delta r)\<rparr>;
          r2 = r1\<lparr>sensi_equity := float_div ops (delta r1) (one_plus_pct ops (pct_prem r1))\<rparr>;
          r3 = r2\<lparr>contrib_sensi_equity := contrib_sensi ops (sensi_equity r2) (market_value r2)\<rparr>;
          r4 = r3\<lparr>delta_pct := default_delta (security_type r3) (delta_pct r3)\<rparr>;
          r5 = r4\<lparr>sensi_equity_xcv := float_div ops (delta_pct r4) (one_plus_pct ops (premium_pct r4))\<rparr>;
          r6 = r5\<lparr>contrib_sensi_equity_xcv :=
                    contrib_sensi ops (sensi_equity_xcv r5) (market_value r5)\<rparr>;
          r7 = r6\<lparr>contrib_modified_duration := contrib_pct ops (mod_dur_to_worst r6) (market_value r6)\<rparr>;
          r8 = r7\<lparr>effective_duration :=
                    (if security_type r7 \<noteq> Some ''Convertible Bonds'' then mod_dur_to_worst r7
                     else effective_duration r7)\<rparr>;
          r9 = r8\<lparr>contrib_effective_duration :=
                    contrib_pct ops (effective_duration r8) (market_value r8)\<rparr>;
          r10 = r9\<lparr>interest_sensitivity :=
                    (if security_type r9 \<noteq> Some ''Convertible Bonds'' then num_scale ops (oad r9) (- 1)
                     else interest_sensitivity r9)\<rparr>;
          r11 = r10\<lparr>contrib_taux_sensi := contrib_pct ops (interest_sensitivity r10) (market_value r10)\<rparr>;
          r12 = r11\<lparr>credit_sensitivity :=
                    (if security_type r11 \<noteq> Some ''Convertible Bonds'' then num_scale ops (oac r11) (- 1)
                     else credit_sensitivity r11)\<rparr>;
          r13 = r12\<lparr>contrib_credit_sensi := contrib_pct ops (credit_sensitivity r12) (market_value r12)\<rparr>
      in r13\<lparr>contrib_implied_spread := contrib_pct ops (implied_spread r13) (market_value r13)\<rparr>)"

definition calculate_sensitivities :: "float_ops \<Rightarrow> frame \<Rightarrow> frame" where
  "calculate_sensitivities ops df = map (calculate_sensitivities_row ops) df"

section \<open>PortfolioCalculator: buckets\<close>

text \<open>The order of floats, infinities included.\<close>

fun fnum_less :: "fnum \<Rightarrow> fnum \<Rightarrow> bool" where
  "fnum_less (Fin a) (Fin b) = (a < b)"
| "fnum_less NegInf NegInf = False"
| "fnum_less NegInf (Fin b) = True"
| "fnum_less NegInf PosInf = True"
| "fnum_less (Fin a) PosInf = True"
| "fnum_less (Fin a) NegInf = False"
| "fnum_less PosInf b = False"

definition fnum_le :: "fnum \<Rightarrow> fnum \<Rightarrow> bool" where
  "fnum_le a b = (a = b \<or> fnum_less a b)"

text \<open>
  \<open>bins.searchsorted(x, side)\<close> on increasing bins: the number of bins below \<open>x\<close> for
  \<open>side="left"\<close>, the number of bins not above \<open>x\<close> for \<open>side="right"\<close>.
\<close>

definition searchsorted :: "fnum list \<Rightarrow> fnum \<Rightarrow> bool \<Rightarrow> nat" where
  "searchsorted bins v left =
     length (filter (\<lambda>b. if left then fnum_less b v else fnum_le b v) bins)"

text \<open>
  \<open>pd.cut(x, bins, labels, right, include_lowest)\<close> on one cell, as pandas computes it:
  \<open>ids = bins.searchsorted(x, side="left" if right else "right")\<close>; with
  \<open>include_lowest\<close>, \<open>ids = 1\<close> where \<open>x == bins[0]\<close>; no label for a missing \<open>x\<close> and where
  \<open>ids\<close> is 0 or \<open>len(bins)\<close>; else the label \<open>labels[ids - 1]\<close>.
\<close>

definition pd_cut :: "fnum list \<Rightarrow> string list \<Rightarrow> bool \<Rightarrow> bool \<Rightarrow> xnum \<Rightarrow> cell" where
  "pd_cut bins labels right include_lowest x =
     (case x of
        None \<Rightarrow> None
      | Some v \<Rightarrow>
          (let ids0 = searchsorted bins v right;
               ids = (if include_lowest \<and> v = hd bins then 1 else ids0)
           in if ids = length bins \<or> ids = 0 then None else Some (labels ! (ids - 1))))"

text \<open>
  The bin edges are the float64 numbers of the literals: 0.25, 0.5 and 0.75 are exact, and
  1.1 is \<open>2476979795053773 / 2^51\<close>.
\<close>

definition bins_equity :: "fnum list" where
  "bins_equity =
     [Fin 0, Fin (1 / 4), Fin (1 / 2), Fin (3 / 4), Fin (2476979795053773 / 2251799813685248)]"

definition labels_equity :: "string list" where
  "labels_equity = [''Bucket 0-25'', ''Bucket 25-50'', ''Bucket 50-75'', ''Bucket 75-100'']"

definition bins_vol :: "fnum list" where
  "bins_vol = [NegInf, Fin 20, Fin 30, Fin 40, PosInf]"

definition labels_vol :: "string list" where
  "labels_vol = [''<20%'', ''20-30%'', ''30-40%'', ''>40%'']"

definition bins_mat :: "fnum list" where
  "bins_mat = [NegInf, Fin 1, Fin 3, Fin 5, PosInf]"

text \<open>The letter a with grave accent of the two middle labels is its two UTF-8 bytes.\<close>

definition labels_mat :: "string list" where
  "labels_mat =
     [''<1 An'', ''1 '' @ [CHR 0xC3, CHR 0xA0] @ '' 3 Ans'',
      ''3 '' @ [CHR 0xC3, CHR 0xA0] @ '' 5 Ans'', ''>5 Ans'']"

definition sensi_bucket_of :: "xnum \<Rightarrow> cell" where
  "sensi_bucket_of x = pd_cut bins_equity labels_equity True True x"

definition vol_bucket_of :: "num \<Rightarrow> cell" where
  "vol_bucket_of x = pd_cut bins_vol labels_vol False False (fin x)"

definition maturity_bucket_of :: "num \<Rightarrow> cell" where
  "maturity_bucket_of x = pd_cut bins_mat labels_mat False False (fin x)"

definition calculate_buckets_row :: "row \<Rightarrow> row" where
  "calculate_buckets_row r =
     (let r1 = r\<lparr>sensi_bucket := sensi_bucket_of (sensi_equity r)\<rparr>;
          r2 = r1\<lparr>vol_bucket := vol_bucket_of (implied_volatility r1)\<rparr>
      in r2\<lparr>maturity_bucket := maturity_bucket_of (years_to_mat r2)\<rparr>)"

definition calculate_buckets :: "frame \<Rightarrow> frame" where
  "calculate_buckets df = map calculate_buckets_row df"

section \<open>PortfolioCalculator: regions, asset types, styles, maturity buckets\<close>




text \<open>The float64 number of the literal 0.003 is \<open>3458764513820541 / 2^60\<close>.\<close>

definition calculate_maturity_buckets_row :: "row \<Rightarrow> row" where
  "calculate_maturity_buckets_row r =
     (let r1 = r\<lparr>years_to_mat :=
                  (if security_type r = Some ''Cash''
                   then Some (3458764513820541 / 1152921504606846976) else years_to_mat r)\<rparr>
      in r1\<lparr>maturity_bucket := maturity_bucket_of (years_to_mat r1)\<rparr>)"


section \<open>PortfolioCalculator: the pipeline on the store of tables\<close>







section \<open>Sensitivities: the product of the specification\<close>

text \<open>
  The specification's words for the contribution: sensitivity times weight, which is missing
  when the sensitivity or the weight is missing.
\<close>

definition spec_product :: "float_ops \<Rightarrow> xnum \<Rightarrow> num \<Rightarrow> xnum" where
  "spec_product ops s mv =
     (case (s, mv) of (Some a, Some m) \<Rightarrow> fnum_mul ops a (Fin m) | _ \<Rightarrow> None)"

section \<open>The fund rating: the scenario of the specification\<close>

text \<open>A corporate bond with an S\&P grade and a weight, every other cell missing.\<close>

definition bond_row :: "string \<Rightarrow> real \<Rightarrow> row" where
  "bond_row g w =
     empty_row\<lparr>security_type := Some ''Corporate Bonds'', sp := Some g, market_value := Some w\<rparr>"

text \<open>Three bonds rated A, BBB and B with weights 40, 35 and 25 percent.\<close>

definition scenario_rows :: frame where
  "scenario_rows = [bond_row ''A'' 40, bond_row ''BBB'' 35, bond_row ''B'' 25]"

text \<open>
  The specification's words: the market-value-weighted average of the ranks, over pairs
  (weight, rank).
\<close>

definition spec_weighted_average :: "(real \<times> real) list \<Rightarrow> real" where
  "spec_weighted_average wrs = sum_list (map (\<lambda>(w, r). w * r) wrs) / sum_list (map fst wrs)"

text \<open>
  The term of a row in the sum \<open>(Rating Chiffre * Market Value (%) / 100).sum()\<close>: the rounded
  product divided by 100, and 0 when the rank or the weight is missing.
\<close>

definition rank_term :: "float_ops \<Rightarrow> row \<Rightarrow> real" where
  "rank_term ops r =
     (case (rating_chiffre r, market_value r) of
        (Some k, Some w) \<Rightarrow> fdiv ops (fmul ops k w) 100
      | _ \<Rightarrow> 0)"

section \<open>Rating resolution: theorems\<close>

lemma valid_strip_nonempty:
  "is_valid_rating (Some s) \<Longrightarrow> strip s \<noteq> []"
  by (auto simp: is_valid_rating_def invalid_sentinels_def str_cell_def upper_def)

lemma min_by_first_min:
  "\<exists>ys zs. b # xs = ys @ min_by f b xs # zs \<and> (\<forall>y\<in>set ys. f (min_by f b xs) < f y)
      \<and> (\<forall>z\<in>set zs. f (min_by f b xs) \<le> f z)"
proof (induction xs arbitrary: b)
  case Nil
  have "[b] = [] @ min_by f b [] # []" by simp
  then show ?case by force
next
  case (Cons x xs)
  define b' where "b' = (if f x < f b then x else b)"
  define m where "m = min_by f b' xs"
  have m: "min_by f b (x # xs) = m" by (simp add: m_def b'_def)
  from Cons.IH [of b'] obtain ys zs where
    split: "b' # xs = ys @ m # zs" and before: "\<forall>y\<in>set ys. f m < f y"
    and after: "\<forall>z\<in>set zs. f m \<le> f z" unfolding m_def by blast
  have le_b': "f m \<le> f b'"
  proof (cases ys)
    case Nil
    with split show ?thesis by simp
  next
    case (Cons y ys')
    with split before show ?thesis by auto
  qed
  show ?case
  proof (cases "f x < f b")
    case True
    then have b': "b' = x" by (simp add: b'_def)
    have "b # x # xs = (b # ys) @ m # zs" using split b' by simp
    moreover have "\<forall>y\<in>set (b # ys). f m < f y" using before le_b' True b' by auto
    ultimately show ?thesis unfolding m using after by blast
  next
    case False
    then have b': "b' = b" by (simp add: b'_def)
    show ?thesis
    proof (cases ys)
      case Nil
      with split b' have mb: "m = b" and zs: "zs = xs" by auto
      have "b # x # xs = [] @ m # (x # zs)" using mb zs by simp
      moreover have "\<forall>z\<in>set (x # zs). f m \<le> f z" using after False mb by auto
      moreover have "\<forall>y\<in>set []. f m < f y" by simp
      ultimately show ?thesis unfolding m by blast
    next
      case (Cons y ys')
      with split b' have y: "y = b" and rest: "xs = ys' @ m # zs" by auto
      have "f m < f b" using before Cons y by auto
      then have "\<forall>y\<in>set (b # x # ys'). f m < f y" using before Cons False by auto
      moreover have "b # x # xs = (b # x # ys') @ m # zs" using rest by simp
      ultimately show ?thesis unfolding m using after by blast
    qed
  qed
qed

lemma min_by_unique:
  assumes "n0 \<in> set (b # xs)" and "\<forall>m\<in>set (b # xs). m \<noteq> n0 \<longrightarrow> f n0 < f m"
  shows "min_by f b xs = n0"
proof (rule ccontr)
  assume ne: "min_by f b xs \<noteq> n0"
  obtain ys zs where split: "b # xs = ys @ min_by f b xs # zs"
    and before: "\<forall>y\<in>set ys. f (min_by f b xs) < f y"
    and after: "\<forall>z\<in>set zs. f (min_by f b xs) \<le> f z"
    using min_by_first_min [of b xs f] by blast
  have "min_by f b xs \<in> set (ys @ min_by f b xs # zs)" by simp
  then have "min_by f b xs \<in> set (b # xs)" by (simp only: split)
  then have lt: "f n0 < f (min_by f b xs)" using assms(2) ne by blast
  have "n0 \<in> set (ys @ min_by f b xs # zs)" using assms(1) by (simp only: split)
  then have "n0 \<in> set ys \<or> n0 \<in> set zs" using ne by auto
  then show False using before after lt by force
qed

lemma number_to_sp_rating_eq:
  "number_to_sp_rating =
     [(1, ''AAA''), (2, ''AA+''), (3, ''AA''), (4, ''AA-''), (5, ''A+''), (6, ''A''), (7, ''A-''),
      (8, ''BBB+''), (9, ''BBB''), (10, ''BBB-''), (11, ''BB+''), (12, ''BB''), (13, ''BB-''),
      (14, ''B+''), (15, ''B''), (16, ''B-''), (17, ''CCC+''), (18, ''CCC''), (19, ''CCC-''),
      (20, ''CC''), (21, ''C''), (22, ''D'')]"
  by (simp add: number_to_sp_rating_def sp_rating_to_number_def)

lemma rank_keys:
  "map fst number_to_sp_rating =
     [1, 2, 3, 4, 5, 6, 7, 8, 9, 10, 11, 12, 13, 14, 15, 16, 17, 18, 19, 20, 21, 22]"
  by (simp add: number_to_sp_rating_eq)

lemma closest_grade_total: "\<exists>g. closest_grade ops x = Inr g"
proof -
  define f where "f = (\<lambda>n::nat. \<bar>fsub ops (real n) x\<bar>)"
  define ks :: "nat list" where
    "ks = [2, 3, 4, 5, 6, 7, 8, 9, 10, 11, 12, 13, 14, 15, 16, 17, 18, 19, 20, 21, 22]"
  define n where "n = min_by f 1 ks"
  have pm: "py_min f (map fst number_to_sp_rating) = Inr n"
    by (simp add: py_min_def rank_keys n_def ks_def)
  have "n \<in> set (1 # ks)"
    using min_by_first_min [of 1 ks f] unfolding n_def by (metis in_set_conv_decomp)
  then have "\<exists>g. map_of number_to_sp_rating n = Some g"
    unfolding ks_def number_to_sp_rating_eq by auto
  with pm show ?thesis by (auto simp: closest_grade_def f_def)
qed

lemma calculate_ratings_total:
  "\<exists>g. calculate_ratings ops df = Inr (map set_rating_columns df, g)"
proof -
  obtain g where "closest_grade ops (fund_rating_chiffre ops (map set_rating_columns df)) = Inr g"
    using closest_grade_total by blast
  then show ?thesis by (simp add: calculate_ratings_def Let_def)
qed

lemma calculate_ratings_frame:
  "calculate_ratings ops df = Inr (df', g) \<Longrightarrow> df' = map set_rating_columns df"
  by (auto simp: calculate_ratings_def Let_def split: sum.splits)

lemma sp_ajusted_set_rating_columns:
  "sp_ajusted (set_rating_columns r) = sp_ajusted (set_sp_ajusted r)"
  by (simp add: set_rating_columns_def Let_def)

lemma security_type_set_sp_ajusted:
  "security_type (set_sp_ajusted r) = security_type r"
  by (simp add: set_sp_ajusted_def Let_def)

lemma assign_rating_improved_spec:
  "assign_rating_improved r = (case spec_first_valid r of None \<Rightarrow> ''NR'' | Some s \<Rightarrow> strip s)"
proof (cases "sp_lt_fc r")
  case None
  then show ?thesis
    by (auto simp: assign_rating_improved_def spec_first_valid_def spec_cascade_values_def
        str_cell_def is_valid_rating_def split: option.splits)
next
  case (Some c)
  then show ?thesis
    by (auto simp: assign_rating_improved_def spec_first_valid_def spec_cascade_values_def
        str_cell_def is_valid_rating_def split: option.splits)
qed

lemma sp_ajusted_resolved:
  "sp_ajusted (set_sp_ajusted r) =
     Some (if security_type r = Some ''Cash'' then ''CASH''
           else case spec_first_valid r of None \<Rightarrow> ''NR'' | Some s \<Rightarrow> strip s)"
  by (simp add: set_sp_ajusted_def Let_def assign_rating_improved_spec)

lemma is_valid_rating_iff:
  "is_valid_rating c \<longleftrightarrow>
     (\<exists>s. c = Some s \<and> upper (strip s) \<notin> {'''', ''NR'', ''#N/A'', ''NAN'', ''NONE''})"
  by (cases c) (simp_all add: is_valid_rating_def invalid_sentinels_def str_cell_def)

lemma rank_set:
  "(m::nat) \<in> set [1, 2, 3, 4, 5, 6, 7, 8, 9, 10, 11, 12, 13, 14, 15, 16, 17, 18, 19, 20, 21, 22]
     \<longleftrightarrow> 1 \<le> m \<and> m \<le> 22"
  by (simp del: One_nat_def) arith

lemma closest_grade_nearest:
  assumes "closest_grade ops x = Inr g"
  shows "\<exists>n. 1 \<le> n \<and> n \<le> 22 \<and> map_of number_to_sp_rating n = Some g
           \<and> (\<forall>m. 1 \<le> m \<and> m \<le> 22 \<longrightarrow> \<bar>fsub ops (real n) x\<bar> \<le> \<bar>fsub ops (real m) x\<bar>)
           \<and> (\<forall>m. 1 \<le> m \<and> m < n \<longrightarrow> \<bar>fsub ops (real n) x\<bar> < \<bar>fsub ops (real m) x\<bar>)"
proof -
  define f where "f = (\<lambda>n::nat. \<bar>fsub ops (real n) x\<bar>)"
  define ks :: "nat list" where
    "ks = [2, 3, 4, 5, 6, 7, 8, 9, 10, 11, 12, 13, 14, 15, 16, 17, 18, 19, 20, 21, 22]"
  define n where "n = min_by f 1 ks"
  have pm: "py_min f (map fst number_to_sp_rating) = Inr n"
    by (simp add: py_min_def rank_keys n_def ks_def)
  obtain ys zs where split: "1 # ks = ys @ n # zs"
    and before: "\<forall>y\<in>set ys. f n < f y" and after: "\<forall>z\<in>set zs. f n \<le> f z"
    using min_by_first_min [of 1 ks f] unfolding n_def by blast
  have all: "\<And>m. m \<in> set (1 # ks) \<longleftrightarrow> 1 \<le> m \<and> m \<le> 22"
    unfolding ks_def by (rule rank_set)
  have "sorted_wrt (<) (1 # ks)" by (simp add: ks_def)
  then have srt: "sorted_wrt (<) (ys @ n # zs)" by (simp only: split)
  then have right: "\<forall>z\<in>set zs. n < z" by (simp add: sorted_wrt_append)
  have "n \<in> set (ys @ n # zs)" by simp
  then have "n \<in> set (1 # ks)" by (simp only: split)
  then have n_in: "1 \<le> n \<and> n \<le> 22" using all by blast
  from pm assms have g: "map_of number_to_sp_rating n = Some g"
    by (auto simp: closest_grade_def f_def split: option.splits)
  have le: "\<forall>m. 1 \<le> m \<and> m \<le> 22 \<longrightarrow> f n \<le> f m"
  proof (intro allI impI)
    fix m :: nat assume "1 \<le> m \<and> m \<le> 22"
    then have "m \<in> set (1 # ks)" using all by blast
    then have "m \<in> set (ys @ n # zs)" by (simp only: split)
    then show "f n \<le> f m" using before after by auto
  qed
  have lt: "\<forall>m. 1 \<le> m \<and> m < n \<longrightarrow> f n < f m"
  proof (intro allI impI)
    fix m :: nat assume m: "1 \<le> m \<and> m < n"
    then have "m \<in> set (1 # ks)" using all n_in by force
    then have "m \<in> set (ys @ n # zs)" by (simp only: split)
    then have "m \<in> set ys" using m right by auto
    then show "f n < f m" using before by blast
  qed
  show ?thesis using n_in g le lt unfolding f_def by blast
qed

section \<open>The fund rating: theorems\<close>

lemmas row_eval = set_rating_columns_def set_sp_ajusted_def
      assign_rating_improved_def is_valid_rating_def str_cell_def strip_def is_space_def
      upper_def upper_char_def invalid_sentinels_def empty_row_def dict_get_def
      sp_rating_to_number_def credit_category_of_def cell_isin_def ig_ratings_def

lemmas fund_eval = fund_rating_chiffre_def bond_types_def nansum_def cell_isin_def
      contrib_rating_chiffre_def num_mul_def num_div_const_def

lemmas grade_eval = closest_grade_def py_min_def number_to_sp_rating_eq

lemmas exact_eval = exact_ops_def

lemma accurate_exact_ops: "accurate exact_ops"
  by (auto simp: accurate_def exact_ops_def intro!: sum_list_nonneg)

lemma accurate_fmul: "accurate ops \<Longrightarrow> \<bar>fmul ops a b - a * b\<bar> \<le> \<bar>a * b\<bar> / 1000"
  unfolding accurate_def by blast

lemma accurate_fdiv: "accurate ops \<Longrightarrow> \<bar>fdiv ops a b - a / b\<bar> \<le> \<bar>a / b\<bar> / 1000"
  unfolding accurate_def by blast

lemma accurate_fsub: "accurate ops \<Longrightarrow> \<bar>fsub ops a b - (a - b)\<bar> \<le> \<bar>a - b\<bar> / 1000"
  unfolding accurate_def by blast

lemma accurate_fsum:
  "accurate ops \<Longrightarrow> length xs \<le> 1000000 \<Longrightarrow>
     \<bar>fsum ops xs - sum_list xs\<bar> \<le> sum_list (map abs xs) / 1000"
  unfolding accurate_def by blast

text \<open>Interval arithmetic for the scenario.\<close>

lemma two_roundings:
  fixes p q kw :: real
  assumes "\<bar>p - kw\<bar> \<le> \<bar>kw\<bar> / 1000" "\<bar>q - p / 100\<bar> \<le> \<bar>p / 100\<bar> / 1000" "0 \<le> kw"
  shows "\<bar>q - kw / 100\<bar> \<le> (kw / 100) * (3 / 1000)"
proof -
  have a: "\<bar>kw\<bar> = kw" using assms(3) by simp
  have 1: "kw - kw / 1000 \<le> p \<and> p \<le> kw + kw / 1000"
    using assms(1) unfolding a abs_diff_le_iff by simp
  then have p0: "0 \<le> p" using assms(3) by linarith
  then have b: "\<bar>p / 100\<bar> = p / 100" by simp
  have 2: "p / 100 - p / 100 / 1000 \<le> q \<and> q \<le> p / 100 + p / 100 / 1000"
    using assms(2) unfolding b abs_diff_le_iff by simp
  show ?thesis unfolding abs_diff_le_iff using 1 2 assms(3) by linarith
qed

lemma sum_near_93:
  fixes s c1 c2 c3 :: real
  assumes "\<bar>c1 - 24 / 10\<bar> \<le> 1 / 100" "\<bar>c2 - 315 / 100\<bar> \<le> 1 / 100"
    "\<bar>c3 - 375 / 100\<bar> \<le> 2 / 100"
    "\<bar>s - (c1 + c2 + c3)\<bar> \<le> (\<bar>c1\<bar> + \<bar>c2\<bar> + \<bar>c3\<bar>) / 1000"
  shows "\<bar>s - 93 / 10\<bar> \<le> 1 / 10"
proof -
  have 1: "239 / 100 \<le> c1 \<and> c1 \<le> 241 / 100" using assms(1) unfolding abs_diff_le_iff by simp
  have 2: "314 / 100 \<le> c2 \<and> c2 \<le> 316 / 100" using assms(2) unfolding abs_diff_le_iff by simp
  have 3: "373 / 100 \<le> c3 \<and> c3 \<le> 377 / 100" using assms(3) unfolding abs_diff_le_iff by simp
  have a: "\<bar>c1\<bar> = c1" "\<bar>c2\<bar> = c2" "\<bar>c3\<bar> = c3" using 1 2 3 by simp_all
  have 4: "(c1 + c2 + c3) - (c1 + c2 + c3) / 1000 \<le> s
           \<and> s \<le> (c1 + c2 + c3) + (c1 + c2 + c3) / 1000"
    using assms(4) unfolding a abs_diff_le_iff by simp
  have "93 / 10 - 1 / 10 \<le> s \<and> s \<le> 93 / 10 + 1 / 10" using 1 2 3 4 by argo
  then show ?thesis unfolding abs_diff_le_iff .
qed

lemma distance_of_9:
  fixes y x :: real
  assumes "\<bar>y - (9 - x)\<bar> \<le> \<bar>9 - x\<bar> / 1000" "\<bar>x - 93 / 10\<bar> \<le> 1 / 10"
  shows "\<bar>y\<bar> \<le> 4004 / 10000"
  using assms by argo

lemma distance_of_others:
  fixes y x m :: real
  assumes "\<bar>y - (m - x)\<bar> \<le> \<bar>m - x\<bar> / 1000" "\<bar>x - 93 / 10\<bar> \<le> 1 / 10"
    "m \<le> 8 \<or> 10 \<le> m"
  shows "5994 / 10000 \<le> \<bar>y\<bar>"
  using assms by argo

lemma scenario_rated:
  "map set_rating_columns scenario_rows =
   [(bond_row ''A'' 40)\<lparr>sp_ajusted := Some ''A'', rating_chiffre := Some 6,
       credit_category := Some ''Investment Grade''\<rparr>,
    (bond_row ''BBB'' 35)\<lparr>sp_ajusted := Some ''BBB'', rating_chiffre := Some 9,
       credit_category := Some ''Investment Grade''\<rparr>,
    (bond_row ''B'' 25)\<lparr>sp_ajusted := Some ''B'', rating_chiffre := Some 15,
       credit_category := Some ''High Yield''\<rparr>]"
  by (simp add: scenario_rows_def bond_row_def row_eval)

lemma scenario_terms:
  "fund_rating_chiffre ops (map set_rating_columns scenario_rows) =
     fsum ops [fdiv ops (fmul ops 6 40) 100, fdiv ops (fmul ops 9 35) 100,
               fdiv ops (fmul ops 15 25) 100]"
  unfolding scenario_rated by (simp add: fund_eval bond_row_def empty_row_def)

lemma scenario_chiffre:
  "fund_rating_chiffre exact_ops (map set_rating_columns scenario_rows) = 93 / 10"
  unfolding scenario_terms by (simp add: exact_ops_def)

lemma closest_93: "closest_grade exact_ops (93 / 10) = Inr ''BBB''"
  by (simp add: grade_eval exact_ops_def)

lemma closest_45: "closest_grade exact_ops (9 / 2) = Inr ''AA-''"
  by (simp add: grade_eval exact_ops_def)

lemma scenario_result:
  "calculate_ratings exact_ops scenario_rows = Inr (map set_rating_columns scenario_rows, ''BBB'')"
  unfolding calculate_ratings_def Let_def scenario_chiffre closest_93 by simp

text \<open>The term of one row, computed by an accurate arithmetic.\<close>

lemma accurate_term:
  assumes "accurate ops" and "0 \<le> k * w"
  shows "\<bar>fdiv ops (fmul ops k w) 100 - k * w / 100\<bar> \<le> (k * w / 100) * (3 / 1000)"
  using accurate_fmul [OF assms(1), of k w] accurate_fdiv [OF assms(1), of "fmul ops k w" 100]
    assms(2)
  by (rule two_roundings)

lemma scenario_accurate:
  assumes "accurate ops"
  shows "\<bar>fund_rating_chiffre ops (map set_rating_columns scenario_rows) - 93 / 10\<bar> \<le> 1 / 10"
proof -
  define c1 where "c1 = fdiv ops (fmul ops 6 40) 100"
  define c2 where "c2 = fdiv ops (fmul ops 9 35) 100"
  define c3 where "c3 = fdiv ops (fmul ops 15 25) 100"
  have b1: "\<bar>c1 - 24 / 10\<bar> \<le> 1 / 100"
    using accurate_term [OF assms, of 6 40] by (simp add: c1_def)
  have b2: "\<bar>c2 - 315 / 100\<bar> \<le> 1 / 100"
    using accurate_term [OF assms, of 9 35] by (simp add: c2_def)
  have b3: "\<bar>c3 - 375 / 100\<bar> \<le> 2 / 100"
    using accurate_term [OF assms, of 15 25] by (simp add: c3_def)
  have "\<bar>fsum ops [c1, c2, c3] - sum_list [c1, c2, c3]\<bar>
             \<le> sum_list (map abs [c1, c2, c3]) / 1000"
    by (rule accurate_fsum [OF assms]) simp
  then have s: "\<bar>fsum ops [c1, c2, c3] - (c1 + c2 + c3)\<bar> \<le> (\<bar>c1\<bar> + \<bar>c2\<bar> + \<bar>c3\<bar>) / 1000"
    by (simp add: add.assoc)
  have "\<bar>fsum ops [c1, c2, c3] - 93 / 10\<bar> \<le> 1 / 10"
    using b1 b2 b3 s by (rule sum_near_93)
  then show ?thesis by (simp only: scenario_terms c1_def c2_def c3_def)
qed

text \<open>A number within 1/10 of 9.3 is resolved to rank 9 by an accurate arithmetic.\<close>

lemma closest_near_93:
  assumes "accurate ops" and "\<bar>x - 93 / 10\<bar> \<le> 1 / 10"
  shows "closest_grade ops x = Inr ''BBB''"
proof -
  define f where "f = (\<lambda>n::nat. \<bar>fsub ops (real n) x\<bar>)"
  define ks :: "nat list" where
    "ks = [2, 3, 4, 5, 6, 7, 8, 9, 10, 11, 12, 13, 14, 15, 16, 17, 18, 19, 20, 21, 22]"
  have "\<bar>fsub ops 9 x - (9 - x)\<bar> \<le> \<bar>9 - x\<bar> / 1000"
    by (rule accurate_fsub [OF assms(1)])
  then have "\<bar>fsub ops 9 x\<bar> \<le> 4004 / 10000"
    using assms(2) by (rule distance_of_9)
  then have f9: "f 9 \<le> 4004 / 10000" by (simp add: f_def)
  have far: "5994 / 10000 \<le> f m" if "m \<noteq> 9" for m :: nat
  proof -
    from that have m: "real m \<le> 8 \<or> 10 \<le> real m" by linarith
    have "\<bar>fsub ops (real m) x - (real m - x)\<bar> \<le> \<bar>real m - x\<bar> / 1000"
      by (rule accurate_fsub [OF assms(1)])
    then show ?thesis unfolding f_def using assms(2) m by (rule distance_of_others)
  qed
  have "9 \<in> set (1 # ks)" by (simp add: ks_def)
  moreover have "\<forall>m\<in>set (1 # ks). m \<noteq> 9 \<longrightarrow> f 9 < f m"
  proof (intro ballI impI)
    fix m :: nat assume "m \<noteq> 9"
    then have "5994 / 10000 \<le> f m" by (rule far)
    then show "f 9 < f m" using f9 by linarith
  qed
  ultimately have m9: "min_by f 1 ks = 9" by (rule min_by_unique)
  have keys: "map fst number_to_sp_rating = 1 # ks" by (simp add: rank_keys ks_def)
  have "py_min f (1 # ks) = Inr (min_by f 1 ks)" by (simp add: py_min_def)
  then have pm: "py_min f (map fst number_to_sp_rating) = Inr 9" by (simp only: keys m9)
  have g: "map_of number_to_sp_rating 9 = Some ''BBB''" by (simp add: number_to_sp_rating_eq)
  show ?thesis unfolding closest_grade_def f_def [symmetric] pm by (simp add: g)
qed

lemma scenario_result_accurate:
  assumes "accurate ops"
  shows "calculate_ratings ops scenario_rows = Inr (map set_rating_columns scenario_rows, ''BBB'')"
  unfolding calculate_ratings_def Let_def
    closest_near_93 [OF assms scenario_accurate [OF assms]] by simp

lemma fund_rating_chiffre_terms:
  "fund_rating_chiffre ops df =
     fsum ops (map (rank_term ops)
       (filter (\<lambda>r. security_type r \<in> {Some ''Corporate Bonds'', Some ''Convertible Bonds''}) df))"
proof -
  have a: "(\<lambda>r. cell_isin (security_type r) bond_types) =
        (\<lambda>r. security_type r \<in> {Some ''Corporate Bonds'', Some ''Convertible Bonds''})"
    by (auto simp: cell_isin_def bond_types_def split: option.splits)
  have b: "(\<lambda>x. case x of None \<Rightarrow> 0 | Some v \<Rightarrow> v) \<circ> contrib_rating_chiffre ops = rank_term ops"
    by (auto simp: contrib_rating_chiffre_def rank_term_def num_mul_def num_div_const_def
          fun_eq_iff split: option.splits)
  show ?thesis by (simp add: fund_rating_chiffre_def nansum_def a b)
qed

lemma rating_chiffre_set_rating_columns:
  "rating_chiffre (set_rating_columns r) =
     map_option real (dict_get sp_rating_to_number (sp_ajusted (set_rating_columns r)))"
  by (simp add: set_rating_columns_def Let_def)

text \<open>
  C3 (fund-level rating rollup, amended). When \<open>_calculate_ratings\<close> returns the grade \<open>g\<close>:
  the rank of every row is the rank of its resolved rating (AAA is 1, D is 22, and no rank
  for another text); the fund number is the float64 sum, over the rows of the types Corporate
  Bonds and Convertible Bonds, of rank times weight divided by 100, a missing rank or weight
  counting as 0; the sum is not divided by the total weight. The grade \<open>g\<close> is the grade of a
  rank between 1 and 22 whose computed distance to the fund number is least, and of the lowest
  such rank when several are equally near. For the weights 40, 35, 25 and the ranks 6, 9, 15
  every accurate arithmetic, float64 included, gives a fund number within 1/10 of 9.3, and
  the grade BBB.
\<close>

theorem fund_rating_rollup:
  assumes "calculate_ratings ops df = Inr (df', g)"
  shows "(\<forall>r\<in>set df'. rating_chiffre r =
            map_option real (dict_get sp_rating_to_number (sp_ajusted r)))
       \<and> fund_rating_chiffre ops df' =
           fsum ops (map (rank_term ops)
             (filter (\<lambda>r. security_type r \<in> {Some ''Corporate Bonds'', Some ''Convertible Bonds''})
                df'))
       \<and> closest_grade ops (fund_rating_chiffre ops df') = Inr g
       \<and> (\<exists>n. 1 \<le> n \<and> n \<le> 22 \<and> map_of number_to_sp_rating n = Some g
             \<and> (\<forall>m. 1 \<le> m \<and> m \<le> 22 \<longrightarrow>
                   \<bar>fsub ops (real n) (fund_rating_chiffre ops df')\<bar>
                     \<le> \<bar>fsub ops (real m) (fund_rating_chiffre ops df')\<bar>)
             \<and> (\<forall>m. 1 \<le> m \<and> m < n \<longrightarrow>
                   \<bar>fsub ops (real n) (fund_rating_chiffre ops df')\<bar>
                     < \<bar>fsub ops (real m) (fund_rating_chiffre ops df')\<bar>))
       \<and> (accurate ops \<longrightarrow>
             \<bar>fund_rating_chiffre ops (map set_rating_columns scenario_rows) - 93 / 10\<bar> \<le> 1 / 10
             \<and> calculate_ratings ops scenario_rows =
                 Inr (map set_rating_columns scenario_rows, ''BBB''))"
proof -
  from assms have df': "df' = map set_rating_columns df"
    by (rule calculate_ratings_frame)
  from assms have g: "closest_grade ops (fund_rating_chiffre ops df') = Inr g"
    by (auto simp: calculate_ratings_def Let_def split: sum.splits)
  have a: "\<forall>r\<in>set df'. rating_chiffre r =
            map_option real (dict_get sp_rating_to_number (sp_ajusted r))"
    unfolding df' using rating_chiffre_set_rating_columns by auto
  have b: "fund_rating_chiffre ops df' =
           fsum ops (map (rank_term ops)
             (filter (\<lambda>r. security_type r \<in> {Some ''Corporate Bonds'', Some ''Convertible Bonds''})
                df'))"
    by (rule fund_rating_chiffre_terms)
  have c: "accurate ops \<longrightarrow>
             \<bar>fund_rating_chiffre ops (map set_rating_columns scenario_rows) - 93 / 10\<bar> \<le> 1 / 10
             \<and> calculate_ratings ops scenario_rows =
                 Inr (map set_rating_columns scenario_rows, ''BBB'')"
    using scenario_accurate scenario_result_accurate by blast
  show ?thesis
    using a b c g closest_grade_nearest [OF g] by blast
qed

text \<open>
  The theorem at the scenario of the specification, with the arithmetic of the reals, which
  is accurate.
\<close>

theorem fund_rating_rollup_witness:
  "calculate_ratings exact_ops scenario_rows = Inr (map set_rating_columns scenario_rows, ''BBB'')
   \<and> accurate exact_ops
   \<and> closest_grade exact_ops (fund_rating_chiffre exact_ops (map set_rating_columns scenario_rows))
       = Inr ''BBB''
   \<and> \<bar>fund_rating_chiffre exact_ops (map set_rating_columns scenario_rows) - 93 / 10\<bar> \<le> 1 / 10"
proof -
  from fund_rating_rollup [OF scenario_result] accurate_exact_ops
  have "closest_grade exact_ops
          (fund_rating_chiffre exact_ops (map set_rating_columns scenario_rows)) = Inr ''BBB''
      \<and> \<bar>fund_rating_chiffre exact_ops (map set_rating_columns scenario_rows) - 93 / 10\<bar> \<le> 1 / 10"
    by blast
  then show ?thesis using scenario_result accurate_exact_ops by simp
qed

lemma bbb50_rated:
  "set_rating_columns (bond_row ''BBB'' 50) =
     (bond_row ''BBB'' 50)\<lparr>sp_ajusted := Some ''BBB'', rating_chiffre := Some 9,
        credit_category := Some ''Investment Grade''\<rparr>"
  by (simp add: bond_row_def row_eval)

lemma bbb50_chiffre:
  "fund_rating_chiffre exact_ops
     [(bond_row ''BBB'' 50)\<lparr>sp_ajusted := Some ''BBB'', rating_chiffre := Some 9,
        credit_category := Some ''Investment Grade''\<rparr>] = 9 / 2"
  by (simp add: fund_eval bond_row_def empty_row_def exact_ops_def)

lemma bbb50_result:
  "calculate_ratings exact_ops [bond_row ''BBB'' 50] =
       Inr ([(bond_row ''BBB'' 50)\<lparr>sp_ajusted := Some ''BBB'', rating_chiffre := Some 9,
               credit_category := Some ''Investment Grade''\<rparr>], ''AA-'')"
  unfolding calculate_ratings_def Let_def list.map bbb50_rated bbb50_chiffre closest_45
  by simp

text \<open>
  The scenario's number is 9.3, not 9.15. A single BBB bond weighing 50 percent has the
  weighted average rank 9 (BBB), while the code computes 9 * 50 / 100 = 4.5 and returns AA-:
  every step of this computation (450, 4.5, the sum 4.5 and the distances to the ranks) is
  exact in float64, and 4.5 is equally near to the ranks 4 and 5.
\<close>

theorem fund_rating_rollup_counterexample:
  "fund_rating_chiffre exact_ops (map set_rating_columns scenario_rows) = 93 / 10
   \<and> (93 / 10 :: real) \<noteq> 915 / 100
   \<and> calculate_ratings exact_ops [bond_row ''BBB'' 50] =
       Inr ([(bond_row ''BBB'' 50)\<lparr>sp_ajusted := Some ''BBB'', rating_chiffre := Some 9,
               credit_category := Some ''Investment Grade''\<rparr>], ''AA-'')
   \<and> spec_weighted_average [(50, 9)] = 9
   \<and> map_of number_to_sp_rating 9 = Some ''BBB''"
  unfolding bbb50_result scenario_chiffre
  by (simp add: spec_weighted_average_def number_to_sp_rating_eq)

section \<open>Rating resolution: evaluation lemmas\<close>

lemmas cascade_eval = spec_first_valid_def spec_cascade_values_def

lemma untrimmed_rated:
  "set_rating_columns (empty_row\<lparr>sp := Some '' AA''\<rparr>) =
     empty_row\<lparr>sp := Some '' AA'', sp_ajusted := Some ''AA'', rating_chiffre := Some 3,
        credit_category := Some ''Investment Grade''\<rparr>"
  by (simp add: row_eval)

lemma no_bonds_chiffre:
  "fund_rating_chiffre exact_ops [empty_row\<lparr>sp := Some s, sp_ajusted := a, rating_chiffre := k,
        credit_category := c\<rparr>] = 0"
  by (simp add: fund_eval empty_row_def exact_ops_def)

lemma closest_0: "closest_grade exact_ops 0 = Inr ''AAA''"
  by (simp add: grade_eval exact_ops_def)

lemma spec_first_valid_Some:
  assumes "spec_first_valid r = Some t"
  shows "Some t \<in> set (spec_cascade_values r) \<and> is_valid_rating (Some t)"
proof -
  from assms obtain rest where "filter is_valid_rating (spec_cascade_values r) = Some t # rest"
    by (auto simp: spec_first_valid_def split: list.splits)
  then have "Some t \<in> set (filter is_valid_rating (spec_cascade_values r))" by simp
  then show ?thesis by simp
qed

lemma calculate_ratings_nth:
  assumes "calculate_ratings ops df = Inr (df', g)" and "i < length df"
  shows "df' ! i = set_rating_columns (df ! i)"
  using calculate_ratings_frame [OF assms(1)] assms(2) by simp

lemma foo_rated:
  "set_rating_columns (empty_row\<lparr>sp := Some ''FOO''\<rparr>) =
     empty_row\<lparr>sp := Some ''FOO'', sp_ajusted := Some ''FOO'', rating_chiffre := None,
        credit_category := Some ''High Yield''\<rparr>"
  by (simp add: row_eval)

lemma foo_result:
  "calculate_ratings exact_ops [empty_row\<lparr>sp := Some ''FOO''\<rparr>] =
     Inr ([empty_row\<lparr>sp := Some ''FOO'', sp_ajusted := Some ''FOO'', rating_chiffre := None,
              credit_category := Some ''High Yield''\<rparr>], ''AAA'')"
  unfolding calculate_ratings_def Let_def list.map foo_rated no_bonds_chiffre closest_0
  by simp

lemma bbb_rated:
  "set_rating_columns (empty_row\<lparr>sp := Some ''BBB''\<rparr>) =
     empty_row\<lparr>sp := Some ''BBB'', sp_ajusted := Some ''BBB'', rating_chiffre := Some 9,
        credit_category := Some ''Investment Grade''\<rparr>"
  by (simp add: row_eval)

lemma bbb_result:
  "calculate_ratings exact_ops [empty_row\<lparr>sp := Some ''BBB''\<rparr>] =
     Inr ([empty_row\<lparr>sp := Some ''BBB'', sp_ajusted := Some ''BBB'', rating_chiffre := Some 9,
              credit_category := Some ''Investment Grade''\<rparr>], ''AAA'')"
  unfolding calculate_ratings_def Let_def list.map bbb_rated no_bonds_chiffre closest_0
  by simp

lemma d_rated:
  "set_rating_columns (empty_row\<lparr>sp := Some ''D''\<rparr>) =
     empty_row\<lparr>sp := Some ''D'', sp_ajusted := Some ''D'', rating_chiffre := Some 22,
        credit_category := Some ''Not Rated''\<rparr>"
  by (simp add: row_eval)

lemma d_result:
  "calculate_ratings exact_ops [empty_row\<lparr>sp := Some ''D''\<rparr>] =
     Inr ([empty_row\<lparr>sp := Some ''D'', sp_ajusted := Some ''D'', rating_chiffre := Some 22,
              credit_category := Some ''Not Rated''\<rparr>], ''AAA'')"
  unfolding calculate_ratings_def Let_def list.map d_rated no_bonds_chiffre closest_0
  by simp

lemma credit_category_set_rating_columns:
  "credit_category (set_rating_columns r) =
     Some (if security_type r = Some ''Cash'' then ''Cash''
           else if cell_isin (sp_ajusted (set_sp_ajusted r)) ig_ratings then ''Investment Grade''
           else if \<not> cell_isin (sp_ajusted (set_sp_ajusted r)) [''NR'', ''D''] then ''High Yield''
           else ''Not Rated'')"
  by (simp add: set_rating_columns_def Let_def credit_category_of_def security_type_set_sp_ajusted)

lemma security_type_set_rating_columns:
  "security_type (set_rating_columns r) = security_type r"
  by (simp add: set_rating_columns_def Let_def security_type_set_sp_ajusted)

lemma valid_not_nr:
  assumes "is_valid_rating (Some t)"
  shows "strip t \<noteq> ''NR''"
proof
  assume "strip t = ''NR''"
  then have "upper (strip t) = ''NR''" by (simp add: upper_def upper_char_def)
  then show False using assms by (simp add: is_valid_rating_def invalid_sentinels_def str_cell_def)
qed

lemma nr_cash_not_grades: "''NR'' \<notin> set valid_grades" "''CASH'' \<notin> set valid_grades"
  by (simp_all add: valid_grades_def sp_rating_to_number_def)

lemmas ascii_eval = ascii_ratings_def ascii_cell_def ascii_text_def

section \<open>Rating resolution: the cascade\<close>

text \<open>
  C1 (rating resolution, amended). On a table whose rating cells hold ASCII text,
  \<open>_calculate_ratings\<close> always returns, and for every row the column \<open>S&P Ajusted\<close> is CASH
  when the security type is Cash; otherwise it is the text, with surrounding white space
  removed, of the first valid value among S\&P, the secondary rating (when the table has that
  column) and the internal rating, and NR when none is valid. A value is valid exactly when
  it is present and its trimmed upper-cased text is none of the empty string, NR, \#N/A, NAN,
  NONE.
\<close>

theorem rating_resolution_cascade:
  assumes "\<forall>r\<in>set df. ascii_ratings r" and "ascii_cell c"
  shows "(\<exists>g. calculate_ratings ops df = Inr (map set_rating_columns df, g))
   \<and> map sp_ajusted (map set_rating_columns df) =
       map (\<lambda>r. Some (if security_type r = Some ''Cash'' then ''CASH''
                       else case spec_first_valid r of None \<Rightarrow> ''NR'' | Some s \<Rightarrow> strip s)) df
   \<and> (is_valid_rating c \<longleftrightarrow>
        (\<exists>s. c = Some s \<and> upper (strip s) \<notin> {'''', ''NR'', ''#N/A'', ''NAN'', ''NONE''}))"
proof -
  have "map sp_ajusted (map set_rating_columns df) =
       map (\<lambda>r. Some (if security_type r = Some ''Cash'' then ''CASH''
                       else case spec_first_valid r of None \<Rightarrow> ''NR'' | Some s \<Rightarrow> strip s)) df"
    by (simp add: sp_ajusted_set_rating_columns sp_ajusted_resolved)
  then show ?thesis
    using calculate_ratings_total [of ops df] is_valid_rating_iff [of c] by blast
qed

text \<open>
  The theorem on a table of two rows: a bond whose only valid rating is the internal one,
  written with surrounding blanks, and a cash line that carries a rating.
\<close>

theorem rating_resolution_cascade_witness:
  "(\<forall>r\<in>set [empty_row\<lparr>sp := Some ''nr'', sp_lt_fc := Some (Some ''#N/A''), rating := Some '' BB+ ''\<rparr>,
           empty_row\<lparr>security_type := Some ''Cash'', sp := Some ''AA''\<rparr>]. ascii_ratings r) = True
   \<and> ascii_cell (Some '' BB+ '')
   \<and> (\<exists>g. calculate_ratings exact_ops
          [empty_row\<lparr>sp := Some ''nr'', sp_lt_fc := Some (Some ''#N/A''), rating := Some '' BB+ ''\<rparr>,
           empty_row\<lparr>security_type := Some ''Cash'', sp := Some ''AA''\<rparr>] =
        Inr (map set_rating_columns
          [empty_row\<lparr>sp := Some ''nr'', sp_lt_fc := Some (Some ''#N/A''), rating := Some '' BB+ ''\<rparr>,
           empty_row\<lparr>security_type := Some ''Cash'', sp := Some ''AA''\<rparr>], g))
   \<and> map sp_ajusted (map set_rating_columns
          [empty_row\<lparr>sp := Some ''nr'', sp_lt_fc := Some (Some ''#N/A''), rating := Some '' BB+ ''\<rparr>,
           empty_row\<lparr>security_type := Some ''Cash'', sp := Some ''AA''\<rparr>]) =
       [Some ''BB+'', Some ''CASH'']
   \<and> is_valid_rating (Some '' BB+ '') \<and> \<not> is_valid_rating (Some ''nr'')"
proof -
  define X where "X = [empty_row\<lparr>sp := Some ''nr'', sp_lt_fc := Some (Some ''#N/A''), rating := Some '' BB+ ''\<rparr>,
           empty_row\<lparr>security_type := Some ''Cash'', sp := Some ''AA''\<rparr>]"
  have a: "\<forall>r\<in>set X. ascii_ratings r"
    by (simp add: X_def ascii_eval empty_row_def)
  have c: "ascii_cell (Some '' BB+ '')"
    by (simp add: ascii_eval)
  have v: "is_valid_rating (Some '' BB+ '')" "\<not> is_valid_rating (Some ''nr'')"
      "\<not> is_valid_rating (Some ''#N/A'')"
    by (simp_all add: is_valid_rating_def str_cell_def strip_def is_space_def upper_def
         upper_char_def invalid_sentinels_def)
  have s: "strip '' BB+ '' = ''BB+''"
    by (simp add: strip_def is_space_def)
  have e: "map (\<lambda>r. Some (if security_type r = Some ''Cash'' then ''CASH''
                       else case spec_first_valid r of None \<Rightarrow> ''NR'' | Some s \<Rightarrow> strip s)) X
        = [Some ''BB+'', Some ''CASH'']"
    by (simp add: X_def cascade_eval v s empty_row_def)
  from rating_resolution_cascade [OF a c, of exact_ops] e v a c
  show ?thesis unfolding X_def by simp
qed

text \<open>
  The resolved rating is not always the first valid value itself: for the S\&P text
  \<open>" AA"\<close> the column holds \<open>"AA"\<close>.
\<close>

theorem rating_resolution_cascade_counterexample:
  "calculate_ratings exact_ops [empty_row\<lparr>sp := Some '' AA''\<rparr>] =
     Inr ([empty_row\<lparr>sp := Some '' AA'', sp_ajusted := Some ''AA'', rating_chiffre := Some 3,
              credit_category := Some ''Investment Grade''\<rparr>], ''AAA'')
   \<and> spec_first_valid (empty_row\<lparr>sp := Some '' AA''\<rparr>) = Some '' AA''
   \<and> Some ''AA'' \<noteq> Some '' AA''"
proof -
  have v: "is_valid_rating (Some '' AA'')"
    by (simp add: is_valid_rating_def str_cell_def strip_def is_space_def upper_def
         upper_char_def invalid_sentinels_def)
  have a: "spec_first_valid (empty_row\<lparr>sp := Some '' AA''\<rparr>) = Some '' AA''"
    by (simp add: cascade_eval v empty_row_def)
  have b: "calculate_ratings exact_ops [empty_row\<lparr>sp := Some '' AA''\<rparr>] =
     Inr ([empty_row\<lparr>sp := Some '' AA'', sp_ajusted := Some ''AA'', rating_chiffre := Some 3,
              credit_category := Some ''Investment Grade''\<rparr>], ''AAA'')"
    unfolding calculate_ratings_def Let_def list.map untrimmed_rated no_bonds_chiffre closest_0
    by simp
  show ?thesis using a b by simp
qed

section \<open>Rating resolution: the values of the resolved rating\<close>

text \<open>
  C7 (values of the resolved rating, amended). For every row whose rating cells hold ASCII
  text, the column \<open>S&P Ajusted\<close> is present and not empty: it is CASH for a row of security
  type Cash, NR when no rating field is valid, and otherwise the trimmed text of the first
  valid rating field, whatever that text is. So it is a letter grade AAA \<dots> D, NR or CASH
  exactly when the row is of type Cash, or no rating field is valid, or the trimmed text of
  the first valid field is a letter grade or CASH; any other text passes through unchanged.
\<close>

theorem resolved_rating_codomain:
  assumes "calculate_ratings ops df = Inr (df', g)" and "i < length df"
    and "ascii_ratings (df ! i)"
  shows "\<exists>s. sp_ajusted (df' ! i) = Some s \<and> s \<noteq> []
           \<and> s = (if security_type (df ! i) = Some ''Cash'' then ''CASH''
                  else case spec_first_valid (df ! i) of None \<Rightarrow> ''NR'' | Some t \<Rightarrow> strip t)
           \<and> (s \<in> set valid_grades \<union> {''NR'', ''CASH''} \<longleftrightarrow>
                security_type (df ! i) = Some ''Cash''
                \<or> (case spec_first_valid (df ! i) of
                      None \<Rightarrow> True
                    | Some t \<Rightarrow> strip t \<in> set valid_grades \<union> {''CASH''}))"
proof -
  define r where "r = df ! i"
  have nth: "df' ! i = set_rating_columns r"
    unfolding r_def by (rule calculate_ratings_nth [OF assms(1,2)])
  have res: "sp_ajusted (df' ! i) =
     Some (if security_type r = Some ''Cash'' then ''CASH''
           else case spec_first_valid r of None \<Rightarrow> ''NR'' | Some s \<Rightarrow> strip s)"
    by (simp add: nth sp_ajusted_set_rating_columns sp_ajusted_resolved)
  show ?thesis
  proof (cases "security_type r = Some ''Cash''")
    case True
    then show ?thesis using res unfolding r_def [symmetric] by simp
  next
    case False
    show ?thesis
    proof (cases "spec_first_valid r")
      case None
      then show ?thesis using res False unfolding r_def [symmetric] by simp
    next
      case (Some t)
      from spec_first_valid_Some [OF Some]
      have t: "is_valid_rating (Some t)" by simp
      have ne: "strip t \<noteq> []" using t by (rule valid_strip_nonempty)
      have nr: "strip t \<noteq> ''NR''" using t by (rule valid_not_nr)
      have s: "sp_ajusted (df' ! i) = Some (strip t)" using res False Some by simp
      show ?thesis using s ne nr False Some unfolding r_def [symmetric] by auto
    qed
  qed
qed

text \<open>The theorem on a one-row table whose S\&P rating is BBB.\<close>

theorem resolved_rating_codomain_witness:
  "calculate_ratings exact_ops [empty_row\<lparr>sp := Some ''BBB''\<rparr>] =
     Inr ([empty_row\<lparr>sp := Some ''BBB'', sp_ajusted := Some ''BBB'', rating_chiffre := Some 9,
              credit_category := Some ''Investment Grade''\<rparr>], ''AAA'')
   \<and> (0::nat) < length [empty_row\<lparr>sp := Some ''BBB''\<rparr>]
   \<and> ascii_ratings ([empty_row\<lparr>sp := Some ''BBB''\<rparr>] ! 0)
   \<and> (\<exists>s. sp_ajusted ([empty_row\<lparr>sp := Some ''BBB'', sp_ajusted := Some ''BBB'',
                rating_chiffre := Some 9, credit_category := Some ''Investment Grade''\<rparr>] ! 0) = Some s
          \<and> s \<noteq> [] \<and> s \<in> set valid_grades \<union> {''NR'', ''CASH''})"
proof -
  have l: "(0::nat) < length [empty_row\<lparr>sp := Some ''BBB''\<rparr>]" by simp
  have a: "ascii_ratings ([empty_row\<lparr>sp := Some ''BBB''\<rparr>] ! 0)"
    by (simp add: ascii_eval empty_row_def)
  have v: "is_valid_rating (Some ''BBB'')"
    by (simp add: is_valid_rating_def str_cell_def strip_def is_space_def upper_def
         upper_char_def invalid_sentinels_def)
  have f: "spec_first_valid ([empty_row\<lparr>sp := Some ''BBB''\<rparr>] ! 0) = Some ''BBB''"
    by (simp add: cascade_eval v empty_row_def)
  have g: "strip ''BBB'' \<in> set valid_grades \<union> {''CASH''}"
    by (simp add: strip_def is_space_def valid_grades_def sp_rating_to_number_def)
  from resolved_rating_codomain [OF bbb_result l a]
  have "\<exists>s. sp_ajusted ([empty_row\<lparr>sp := Some ''BBB'', sp_ajusted := Some ''BBB'',
                rating_chiffre := Some 9, credit_category := Some ''Investment Grade''\<rparr>] ! 0) = Some s
          \<and> s \<noteq> [] \<and> s \<in> set valid_grades \<union> {''NR'', ''CASH''}"
    unfolding f using g by auto
  then show ?thesis using bbb_result l a by simp
qed

text \<open>
  A rating text that is no letter grade passes through: the S\&P text FOO is resolved to
  FOO.
\<close>

theorem resolved_rating_codomain_counterexample:
  "calculate_ratings exact_ops [empty_row\<lparr>sp := Some ''FOO''\<rparr>] =
     Inr ([empty_row\<lparr>sp := Some ''FOO'', sp_ajusted := Some ''FOO'', rating_chiffre := None,
              credit_category := Some ''High Yield''\<rparr>], ''AAA'')
   \<and> ''FOO'' \<notin> set valid_grades \<union> {''NR'', ''CASH''}"
  using foo_result by (simp add: valid_grades_def sp_rating_to_number_def)

section \<open>Rating resolution: the credit category\<close>

text \<open>
  C9 (credit category). For every row the column \<open>Credit Category\<close> is one of Cash,
  Investment Grade, High Yield, Not Rated. A row of security type Cash is classified Cash
  whatever its rating; a resolved rating D is classified Not Rated; for the other rows a
  rating of the investment-grade list is Investment Grade, NR is Not Rated, and every other
  text, recognised or not, is High Yield.
\<close>

theorem credit_category_classification:
  assumes "calculate_ratings ops df = Inr (df', g)" and "i < length df"
  shows "\<exists>c s. credit_category (df' ! i) = Some c \<and> sp_ajusted (df' ! i) = Some s
      \<and> security_type (df' ! i) = security_type (df ! i)
      \<and> c \<in> {''Cash'', ''Investment Grade'', ''High Yield'', ''Not Rated''}
      \<and> (security_type (df ! i) = Some ''Cash'' \<longrightarrow> c = ''Cash'')
      \<and> (s = ''D'' \<longrightarrow> c = ''Not Rated'')
      \<and> (security_type (df ! i) \<noteq> Some ''Cash'' \<longrightarrow>
            (s \<in> set ig_ratings \<longrightarrow> c = ''Investment Grade'')
          \<and> (s \<notin> set ig_ratings \<and> s \<notin> {''NR'', ''D''} \<longrightarrow> c = ''High Yield'')
          \<and> (s \<notin> set ig_ratings \<and> s \<in> {''NR'', ''D''} \<longrightarrow> c = ''Not Rated''))"
proof -
  define r where "r = df ! i"
  have nth: "df' ! i = set_rating_columns r"
    unfolding r_def by (rule calculate_ratings_nth [OF assms])
  obtain s where s: "sp_ajusted (set_sp_ajusted r) = Some s"
      and cash: "security_type r = Some ''Cash'' \<Longrightarrow> s = ''CASH''"
    by (simp add: sp_ajusted_resolved)
  have d: "''D'' \<notin> set ig_ratings" "''NR'' \<notin> set ig_ratings"
    by (simp_all add: ig_ratings_def)
  have a: "sp_ajusted (df' ! i) = Some s"
    by (simp add: nth sp_ajusted_set_rating_columns s)
  have b: "security_type (df' ! i) = security_type r"
    by (simp add: nth security_type_set_rating_columns)
  have c: "credit_category (df' ! i) =
     Some (if security_type r = Some ''Cash'' then ''Cash''
           else if s \<in> set ig_ratings then ''Investment Grade''
           else if s \<notin> {''NR'', ''D''} then ''High Yield''
           else ''Not Rated'')"
    by (simp add: nth credit_category_set_rating_columns s cell_isin_def)
  show ?thesis
  proof (cases "security_type r = Some ''Cash''")
    case True
    then show ?thesis using a b c cash unfolding r_def [symmetric] by simp
  next
    case False
    then show ?thesis using a b c d unfolding r_def [symmetric] by auto
  qed
qed

text \<open>The theorem on a one-row table whose S\&P rating is D.\<close>

theorem credit_category_classification_witness:
  "calculate_ratings exact_ops [empty_row\<lparr>sp := Some ''D''\<rparr>] =
     Inr ([empty_row\<lparr>sp := Some ''D'', sp_ajusted := Some ''D'', rating_chiffre := Some 22,
              credit_category := Some ''Not Rated''\<rparr>], ''AAA'')
   \<and> (0::nat) < length [empty_row\<lparr>sp := Some ''D''\<rparr>]
   \<and> credit_category ([empty_row\<lparr>sp := Some ''D'', sp_ajusted := Some ''D'',
          rating_chiffre := Some 22, credit_category := Some ''Not Rated''\<rparr>] ! 0) = Some ''Not Rated''"
proof -
  have l: "(0::nat) < length [empty_row\<lparr>sp := Some ''D''\<rparr>]" by simp
  from credit_category_classification [OF d_result l]
  obtain c s where "credit_category ([empty_row\<lparr>sp := Some ''D'', sp_ajusted := Some ''D'',
          rating_chiffre := Some 22, credit_category := Some ''Not Rated''\<rparr>] ! 0) = Some c"
     and "sp_ajusted ([empty_row\<lparr>sp := Some ''D'', sp_ajusted := Some ''D'',
          rating_chiffre := Some 22, credit_category := Some ''Not Rated''\<rparr>] ! 0) = Some s"
     and "s = ''D'' \<longrightarrow> c = ''Not Rated''"
    by blast
  then show ?thesis using d_result by simp
qed

section \<open>Buckets: theorems\<close>

lemmas cut_eval = pd_cut_def searchsorted_def fnum_le_def fin_def Let_def

lemma vol_bucket_of_Some:
  "vol_bucket_of (Some v) =
     Some (if v < 20 then ''<20%'' else if v < 30 then ''20-30%''
           else if v < 40 then ''30-40%'' else ''>40%'')"
  by (simp add: vol_bucket_of_def bins_vol_def labels_vol_def cut_eval)

lemma maturity_bucket_of_Some:
  "maturity_bucket_of (Some y) =
     Some (if y < 1 then ''<1 An'' else if y < 3 then ''1 '' @ [CHR 0xC3, CHR 0xA0] @ '' 3 Ans''
           else if y < 5 then ''3 '' @ [CHR 0xC3, CHR 0xA0] @ '' 5 Ans'' else ''>5 Ans'')"
  by (simp add: maturity_bucket_of_def bins_mat_def labels_mat_def cut_eval)

lemma sensi_bucket_of_Fin:
  "sensi_bucket_of (Some (Fin s)) =
     (if s < 0 \<or> 2476979795053773 / 2251799813685248 < s then None
      else Some (if s \<le> 1 / 4 then ''Bucket 0-25'' else if s \<le> 1 / 2 then ''Bucket 25-50''
                 else if s \<le> 3 / 4 then ''Bucket 50-75'' else ''Bucket 75-100''))"
  by (simp add: sensi_bucket_of_def bins_equity_def labels_equity_def cut_eval)

lemma sensi_bucket_of_inf:
  "sensi_bucket_of (Some PosInf) = None" "sensi_bucket_of (Some NegInf) = None"
  "sensi_bucket_of None = None"
  by (simp_all add: sensi_bucket_of_def bins_equity_def labels_equity_def cut_eval)

lemma bucket_of_None: "vol_bucket_of None = None" "maturity_bucket_of None = None"
  by (simp_all add: vol_bucket_of_def maturity_bucket_of_def cut_eval)

lemma buckets_row:
  "sensi_bucket (calculate_buckets_row r) = sensi_bucket_of (sensi_equity r)"
  "vol_bucket (calculate_buckets_row r) = vol_bucket_of (implied_volatility r)"
  "maturity_bucket (calculate_buckets_row r) = maturity_bucket_of (years_to_mat r)"
  by (simp_all add: calculate_buckets_row_def Let_def)

lemma maturity_row:
  "maturity_bucket (calculate_maturity_buckets_row r) =
     (if security_type r = Some ''Cash'' then Some ''<1 An''
      else maturity_bucket_of (years_to_mat r))"
  by (simp add: calculate_maturity_buckets_row_def Let_def maturity_bucket_of_Some)

text \<open>
  C2 (bucket assignment, amended). For every row: the volatility bucket and the maturity
  bucket are absent for a missing value and otherwise the one label of the half-open
  interval that holds the value, a value on a boundary (20, 30, 40; 1, 3, 5) falling into
  the higher bucket; \<open>_calculate_maturity_buckets\<close> then gives a cash line the first
  maturity bucket. The sensitivity bucket is that of the intervals closed on the right,
  [0, 0.25], (0.25, 0.5], (0.5, 0.75], (0.75, 1.1]: a value on a boundary falls into the
  lower bucket, and a value below 0 or above 1.1, infinite or missing has no bucket. The
  labels of each dimension are distinct.
\<close>

theorem bucket_assignment:
  "vol_bucket (calculate_buckets_row r) =
     (case implied_volatility r of
        None \<Rightarrow> None
      | Some v \<Rightarrow> Some (if v < 20 then ''<20%'' else if v < 30 then ''20-30%''
                        else if v < 40 then ''30-40%'' else ''>40%''))
   \<and> maturity_bucket (calculate_buckets_row r) =
     (case years_to_mat r of
        None \<Rightarrow> None
      | Some y \<Rightarrow> Some (if y < 1 then ''<1 An''
                        else if y < 3 then ''1 '' @ [CHR 0xC3, CHR 0xA0] @ '' 3 Ans''
                        else if y < 5 then ''3 '' @ [CHR 0xC3, CHR 0xA0] @ '' 5 Ans''
                        else ''>5 Ans''))
   \<and> maturity_bucket (calculate_maturity_buckets_row r) =
     (if security_type r = Some ''Cash'' then Some ''<1 An''
      else maturity_bucket (calculate_buckets_row r))
   \<and> sensi_bucket (calculate_buckets_row r) =
     (case sensi_equity r of
        Some (Fin s) \<Rightarrow>
          if s < 0 \<or> 2476979795053773 / 2251799813685248 < s then None
          else Some (if s \<le> 1 / 4 then ''Bucket 0-25'' else if s \<le> 1 / 2 then ''Bucket 25-50''
                     else if s \<le> 3 / 4 then ''Bucket 50-75'' else ''Bucket 75-100'')
      | _ \<Rightarrow> None)
   \<and> distinct labels_vol \<and> distinct labels_mat \<and> distinct labels_equity"
proof -
  have v: "vol_bucket (calculate_buckets_row r) =
     (case implied_volatility r of
        None \<Rightarrow> None
      | Some v \<Rightarrow> Some (if v < 20 then ''<20%'' else if v < 30 then ''20-30%''
                        else if v < 40 then ''30-40%'' else ''>40%''))"
    by (cases "implied_volatility r") (simp_all add: buckets_row bucket_of_None vol_bucket_of_Some)
  have m: "maturity_bucket (calculate_buckets_row r) =
     (case years_to_mat r of
        None \<Rightarrow> None
      | Some y \<Rightarrow> Some (if y < 1 then ''<1 An''
                        else if y < 3 then ''1 '' @ [CHR 0xC3, CHR 0xA0] @ '' 3 Ans''
                        else if y < 5 then ''3 '' @ [CHR 0xC3, CHR 0xA0] @ '' 5 Ans''
                        else ''>5 Ans''))"
    by (cases "years_to_mat r")
       (simp_all only: buckets_row bucket_of_None maturity_bucket_of_Some option.case)
  have c: "maturity_bucket (calculate_maturity_buckets_row r) =
     (if security_type r = Some ''Cash'' then Some ''<1 An''
      else maturity_bucket (calculate_buckets_row r))"
    by (simp only: maturity_row buckets_row)
  have s: "sensi_bucket (calculate_buckets_row r) =
     (case sensi_equity r of
        Some (Fin s) \<Rightarrow>
          if s < 0 \<or> 2476979795053773 / 2251799813685248 < s then None
          else Some (if s \<le> 1 / 4 then ''Bucket 0-25'' else if s \<le> 1 / 2 then ''Bucket 25-50''
                     else if s \<le> 3 / 4 then ''Bucket 50-75'' else ''Bucket 75-100'')
      | _ \<Rightarrow> None)"
  proof (cases "sensi_equity r")
    case None
    then show ?thesis by (simp add: buckets_row sensi_bucket_of_inf)
  next
    case (Some x)
    then show ?thesis
      by (cases x) (simp_all only: buckets_row sensi_bucket_of_inf sensi_bucket_of_Fin
            option.case fnum.case)
  qed
  have d: "distinct labels_vol \<and> distinct labels_mat \<and> distinct labels_equity"
    by (simp add: labels_vol_def labels_mat_def labels_equity_def)
  show ?thesis using v m c s d by (simp only: simp_thms)
qed

text \<open>The theorem on a row with volatility 20, maturity 1 and sensitivity 0.\<close>

theorem bucket_assignment_witness:
  "vol_bucket (calculate_buckets_row (empty_row\<lparr>implied_volatility := Some 20,
       years_to_mat := Some 1, sensi_equity := Some (Fin 0)\<rparr>)) = Some ''20-30%''
   \<and> maturity_bucket (calculate_buckets_row (empty_row\<lparr>implied_volatility := Some 20,
       years_to_mat := Some 1, sensi_equity := Some (Fin 0)\<rparr>))
       = Some (''1 '' @ [CHR 0xC3, CHR 0xA0] @ '' 3 Ans'')
   \<and> sensi_bucket (calculate_buckets_row (empty_row\<lparr>implied_volatility := Some 20,
       years_to_mat := Some 1, sensi_equity := Some (Fin 0)\<rparr>)) = Some ''Bucket 0-25''"
  using bucket_assignment [of "empty_row\<lparr>implied_volatility := Some 20,
       years_to_mat := Some 1, sensi_equity := Some (Fin 0)\<rparr>"]
  by (simp add: empty_row_def)

lemma sensi_equity_row:
  "sensi_equity (calculate_sensitivities_row ops r) =
     float_div ops (default_delta (security_type r) (delta r)) (one_plus_pct ops (pct_prem r))"
  by (simp add: calculate_sensitivities_row_def Let_def)

lemma sensi_bucket_pipeline:
  "sensi_bucket (calculate_buckets_row (calculate_sensitivities_row ops r)) =
     sensi_bucket_of (float_div ops (default_delta (security_type r) (delta r))
                        (one_plus_pct ops (pct_prem r)))"
  by (simp only: buckets_row sensi_equity_row)

lemma exact_quotient:
  "float_div exact_ops (default_delta None (Some d)) (one_plus_pct exact_ops (Some 0)) = Some (Fin d)"
  by (simp add: float_div_def default_delta_def one_plus_pct_def exact_ops_def)

text \<open>
  Two rows with no premium and the deltas 0.25 and 1.2: the sensitivities are 0.25 and 1.2
  (both divisions by 1 are exact in float64); the first row is in the bucket 0-25, not in
  25-50, and the second row has no bucket.
\<close>

theorem bucket_assignment_counterexample:
  "map sensi_equity (calculate_sensitivities exact_ops
       [empty_row\<lparr>delta := Some (1 / 4), pct_prem := Some 0\<rparr>,
        empty_row\<lparr>delta := Some (6 / 5), pct_prem := Some 0\<rparr>])
     = [Some (Fin (1 / 4)), Some (Fin (6 / 5))]
   \<and> map sensi_bucket (calculate_buckets (calculate_sensitivities exact_ops
       [empty_row\<lparr>delta := Some (1 / 4), pct_prem := Some 0\<rparr>,
        empty_row\<lparr>delta := Some (6 / 5), pct_prem := Some 0\<rparr>]))
     = [Some ''Bucket 0-25'', None]"
proof -
  have f: "security_type (empty_row\<lparr>delta := Some d, pct_prem := Some 0\<rparr>) = None"
      "delta (empty_row\<lparr>delta := Some d, pct_prem := Some 0\<rparr>) = Some d"
      "pct_prem (empty_row\<lparr>delta := Some d, pct_prem := Some 0\<rparr>) = Some 0" for d
    by (simp_all add: empty_row_def)
  show ?thesis
    by (simp add: calculate_sensitivities_def calculate_buckets_def sensi_bucket_pipeline
         sensi_equity_row f exact_quotient sensi_bucket_of_Fin)
qed

section \<open>Sensitivities: theorems\<close>

lemma delta_filled:
  "delta (calculate_sensitivities_row ops r) = default_delta (security_type r) (delta r)"
  by (simp add: calculate_sensitivities_row_def Let_def)

lemma sensi_equity_filled:
  "sensi_equity (calculate_sensitivities_row ops r) =
     float_div ops (delta (calculate_sensitivities_row ops r)) (one_plus_pct ops (pct_prem r))"
  by (simp add: calculate_sensitivities_row_def Let_def)

lemma contrib_sensi_equity_row:
  "contrib_sensi_equity (calculate_sensitivities_row ops r) =
     contrib_sensi ops (sensi_equity (calculate_sensitivities_row ops r)) (market_value r)"
  by (simp add: calculate_sensitivities_row_def Let_def)

lemma contrib_sensi_cases:
  "contrib_sensi ops s mv =
     fnum_mul ops (case s of None \<Rightarrow> Fin 0 | Some a \<Rightarrow> a)
                  (Fin (case mv of None \<Rightarrow> 0 | Some m \<Rightarrow> m))"
  by (cases mv) (simp_all add: contrib_sensi_def fillna0_def fin_def)

text \<open>
  C4 (equity sensitivity, amended). For every row: a missing delta is first replaced by the
  default of the security type (1 for Common Stocks and Warrants, 0 for Corporate Bonds,
  Currency Forwards, Open-End Funds and Cash) and stays missing when the type has none; the
  sensitivity is the float64 quotient of delta by 1 + premium / 100, missing when delta or
  the premium is missing (and infinite or \<open>NaN\<close> when the divisor is 0); the contribution is
  the product of the sensitivity and the weight after each of the two has been replaced by 0
  where it is missing. So the contribution is sensitivity times weight when both are
  present, and 0 times the weight when delta is missing and has no default.
\<close>

theorem equity_sensitivity_derivation:
  "calculate_sensitivities ops df = map (calculate_sensitivities_row ops) df
   \<and> delta (calculate_sensitivities_row ops r) =
       (case delta r of Some x \<Rightarrow> Some x | None \<Rightarrow> dict_get delta_par_defaut (security_type r))
   \<and> sensi_equity (calculate_sensitivities_row ops r) =
       float_div ops (delta (calculate_sensitivities_row ops r)) (one_plus_pct ops (pct_prem r))
   \<and> contrib_sensi_equity (calculate_sensitivities_row ops r) =
       fnum_mul ops
         (case sensi_equity (calculate_sensitivities_row ops r) of None \<Rightarrow> Fin 0 | Some a \<Rightarrow> a)
         (Fin (case market_value r of None \<Rightarrow> 0 | Some m \<Rightarrow> m))
   \<and> (delta (calculate_sensitivities_row ops r) = Some d \<and> pct_prem r = Some p
        \<and> fadd ops 1 (fdiv ops p 100) \<noteq> 0 \<longrightarrow>
        sensi_equity (calculate_sensitivities_row ops r) =
          Some (Fin (fdiv ops d (fadd ops 1 (fdiv ops p 100)))))
   \<and> (sensi_equity (calculate_sensitivities_row ops r) = Some (Fin s) \<and> market_value r = Some m \<longrightarrow>
        contrib_sensi_equity (calculate_sensitivities_row ops r) = Some (Fin (fmul ops s m)))
   \<and> (delta r = None \<and> security_type r \<in> {Some ''Common Stocks'', Some ''Warrants''} \<longrightarrow>
        delta (calculate_sensitivities_row ops r) = Some 1)
   \<and> (delta r = None \<and> security_type r \<in> {Some ''Corporate Bonds'', Some ''Currency Forwards'',
            Some ''Open-End Funds'', Some ''Cash''} \<longrightarrow>
        delta (calculate_sensitivities_row ops r) = Some 0)
   \<and> (delta r = None \<and> dict_get delta_par_defaut (security_type r) = None \<longrightarrow>
        delta (calculate_sensitivities_row ops r) = None
        \<and> sensi_equity (calculate_sensitivities_row ops r) = None
        \<and> contrib_sensi_equity (calculate_sensitivities_row ops r) =
            Some (Fin (fmul ops 0 (case market_value r of None \<Rightarrow> 0 | Some m \<Rightarrow> m))))"
proof -
  define r' where "r' = calculate_sensitivities_row ops r"
  have d: "delta r' =
       (case delta r of Some x \<Rightarrow> Some x | None \<Rightarrow> dict_get delta_par_defaut (security_type r))"
    unfolding r'_def by (simp add: delta_filled default_delta_def split: option.splits)
  have se: "sensi_equity r' = float_div ops (delta r') (one_plus_pct ops (pct_prem r))"
    unfolding r'_def by (rule sensi_equity_filled)
  have co: "contrib_sensi_equity r' =
       fnum_mul ops (case sensi_equity r' of None \<Rightarrow> Fin 0 | Some a \<Rightarrow> a)
         (Fin (case market_value r of None \<Rightarrow> 0 | Some m \<Rightarrow> m))"
    unfolding r'_def by (simp only: contrib_sensi_equity_row contrib_sensi_cases)
  have a: "delta r' = Some d \<and> pct_prem r = Some p \<and> fadd ops 1 (fdiv ops p 100) \<noteq> 0 \<longrightarrow>
        sensi_equity r' = Some (Fin (fdiv ops d (fadd ops 1 (fdiv ops p 100))))"
    by (simp add: se float_div_def one_plus_pct_def)
  have b: "sensi_equity r' = Some (Fin s) \<and> market_value r = Some m \<longrightarrow>
        contrib_sensi_equity r' = Some (Fin (fmul ops s m))"
    by (simp add: co)
  have c1: "delta r = None \<and> security_type r \<in> {Some ''Common Stocks'', Some ''Warrants''} \<longrightarrow>
        delta r' = Some 1"
    by (auto simp: d dict_get_def delta_par_defaut_def)
  have c0: "delta r = None \<and> security_type r \<in> {Some ''Corporate Bonds'', Some ''Currency Forwards'',
            Some ''Open-End Funds'', Some ''Cash''} \<longrightarrow>
        delta r' = Some 0"
    by (auto simp: d dict_get_def delta_par_defaut_def)
  have n: "delta r = None \<and> dict_get delta_par_defaut (security_type r) = None \<longrightarrow>
        delta r' = None \<and> sensi_equity r' = None
        \<and> contrib_sensi_equity r' =
            Some (Fin (fmul ops 0 (case market_value r of None \<Rightarrow> 0 | Some m \<Rightarrow> m)))"
  proof
    assume h: "delta r = None \<and> dict_get delta_par_defaut (security_type r) = None"
    then have dn: "delta r' = None" by (simp add: d)
    have sn: "sensi_equity r' = None" by (simp add: se dn float_div_def)
    have "contrib_sensi_equity r' =
            Some (Fin (fmul ops 0 (case market_value r of None \<Rightarrow> 0 | Some m \<Rightarrow> m)))"
      by (simp add: co sn)
    then show "delta r' = None \<and> sensi_equity r' = None
        \<and> contrib_sensi_equity r' =
            Some (Fin (fmul ops 0 (case market_value r of None \<Rightarrow> 0 | Some m \<Rightarrow> m)))"
      using dn sn by simp
  qed
  have f: "calculate_sensitivities ops df = map (calculate_sensitivities_row ops) df"
    by (rule calculate_sensitivities_def)
  show ?thesis using f d se co a b c1 c0 n unfolding r'_def by (simp only: simp_thms)
qed

text \<open>
  The theorem on a common stock with no delta, the premium 25 and the weight 10: the delta
  is 1, the sensitivity 1 / 1.25 = 0.8 and the contribution 8.
\<close>

theorem equity_sensitivity_derivation_witness:
  "delta (empty_row\<lparr>security_type := Some ''Common Stocks'', market_value := Some 10,
             pct_prem := Some 25\<rparr>) = None
   \<and> delta (calculate_sensitivities_row exact_ops (empty_row\<lparr>security_type := Some ''Common Stocks'',
             market_value := Some 10, pct_prem := Some 25\<rparr>)) = Some 1
   \<and> sensi_equity (calculate_sensitivities_row exact_ops
          (empty_row\<lparr>security_type := Some ''Common Stocks'',
             market_value := Some 10, pct_prem := Some 25\<rparr>)) = Some (Fin (4 / 5))
   \<and> contrib_sensi_equity (calculate_sensitivities_row exact_ops
          (empty_row\<lparr>security_type := Some ''Common Stocks'',
             market_value := Some 10, pct_prem := Some 25\<rparr>)) = Some (Fin 8)"
proof -
  define X where "X = empty_row\<lparr>security_type := Some ''Common Stocks'', market_value := Some 10,
             pct_prem := Some 25\<rparr>"
  define X' where "X' = calculate_sensitivities_row exact_ops X"
  have x: "delta X = None" "security_type X = Some ''Common Stocks''" "pct_prem X = Some 25"
      "market_value X = Some 10"
    by (simp_all add: X_def empty_row_def)
  have e: "fadd exact_ops 1 (fdiv exact_ops 25 100) = 5 / 4" "fdiv exact_ops 1 (5 / 4) = 4 / 5"
      "fmul exact_ops (4 / 5) 10 = 8"
    by (simp_all add: exact_ops_def)
  note t = equity_sensitivity_derivation [of exact_ops "[]" X 1 25 "4 / 5" 10, folded X'_def]
  from t x have d: "delta X' = Some 1" by blast
  from t have "delta X' = Some 1 \<and> pct_prem X = Some 25
        \<and> fadd exact_ops 1 (fdiv exact_ops 25 100) \<noteq> 0 \<longrightarrow>
        sensi_equity X' = Some (Fin (fdiv exact_ops 1 (fadd exact_ops 1 (fdiv exact_ops 25 100))))"
    by blast
  then have s: "sensi_equity X' = Some (Fin (4 / 5))" using d x by (simp add: e)
  from t have "sensi_equity X' = Some (Fin (4 / 5)) \<and> market_value X = Some 10 \<longrightarrow>
        contrib_sensi_equity X' = Some (Fin (fmul exact_ops (4 / 5) 10))"
    by blast
  then have c: "contrib_sensi_equity X' = Some (Fin 8)" using s x by (simp add: e)
  show ?thesis using x d s c unfolding X'_def X_def by simp
qed

text \<open>
  A row with delta 0.5, no premium and no weight: the sensitivity is 0.5 and the contribution
  is 0, where the product of the sensitivity and the missing weight is missing.
\<close>

theorem equity_sensitivity_derivation_counterexample:
  "sensi_equity (calculate_sensitivities_row exact_ops
        (empty_row\<lparr>delta := Some (1 / 2), pct_prem := Some 0\<rparr>)) = Some (Fin (1 / 2))
   \<and> market_value (empty_row\<lparr>delta := Some (1 / 2), pct_prem := Some 0\<rparr>) = None
   \<and> contrib_sensi_equity (calculate_sensitivities_row exact_ops
        (empty_row\<lparr>delta := Some (1 / 2), pct_prem := Some 0\<rparr>)) = Some (Fin 0)
   \<and> spec_product exact_ops (Some (Fin (1 / 2))) None = None"
proof -
  define X where "X = empty_row\<lparr>delta := Some (1 / 2), pct_prem := Some 0\<rparr>"
  have x: "delta X = Some (1 / 2)" "security_type X = None" "pct_prem X = Some 0"
      "market_value X = None"
    by (simp_all add: X_def empty_row_def)
  have s: "sensi_equity (calculate_sensitivities_row exact_ops X) = Some (Fin (1 / 2))"
    by (simp add: sensi_equity_filled delta_filled x default_delta_def float_div_def
         one_plus_pct_def exact_ops_def)
  have "contrib_sensi_equity (calculate_sensitivities_row exact_ops X) =
          fnum_mul exact_ops (Fin (1 / 2)) (Fin 0)"
    by (simp add: contrib_sensi_equity_row contrib_sensi_cases s x)
  then have c: "contrib_sensi_equity (calculate_sensitivities_row exact_ops X) = Some (Fin 0)"
    by (simp add: exact_ops_def)
  show ?thesis using s c x unfolding X_def by (simp add: spec_product_def)
qed

section \<open>The pipeline on the store: theorems\<close>







end
